theory Spec2Isabelle
  imports Main "HOL-Library.AList" "HOL-Library.Sublist"
begin

section \<open>airflowctl: the command line tool as a state-passing program\<close>

text \<open>
  The tool (\<^verbatim>\<open>src/airflowctl/__main__.py\<close>) is a sequence of file-system operations,
  one HTTP request and a few child processes. The model threads a \<open>world\<close> (the file
  system, the process environment and the trace of observable effects) through every
  function and returns it also when the function raises, so that a statement such as
  "no child process was spawned before the exit" can be read off the trace.

  What the outside does (the HTTP response, the answer at the confirmation prompt, the
  exit status of a child process, the YAML and dotenv parsers) is gathered in a record
  \<open>ext\<close> that every function takes as its first argument.
\<close>

subsection \<open>Paths and the file system\<close>

text \<open>
  A path is the list of its components below the root; \<^verbatim>\<open>p / "dags"\<close> and
  \<^verbatim>\<open>os.path.join(p, "dags")\<close> append a component. Paths are given resolved:
  \<^verbatim>\<open>Path(x).absolute()\<close> and \<^verbatim>\<open>os.path.abspath(x)\<close> are the identity on them.
  The file system is an association list from paths to nodes; there are no permissions
  and no symbolic links.
\<close>

type_synonym path = "string list"

datatype node = Dir | File string

type_synonym filesys = "(path \<times> node) list"

definition lookup :: "filesys \<Rightarrow> path \<Rightarrow> node option" where
  "lookup f p = map_of f p"

definition store :: "path \<Rightarrow> node \<Rightarrow> filesys \<Rightarrow> filesys" where
  "store p n f = AList.update p n f"

definition path_exists :: "filesys \<Rightarrow> path \<Rightarrow> bool" where
  "path_exists f p = (lookup f p \<noteq> None)"

definition parent :: "path \<Rightarrow> path" where
  "parent p = butlast p"

definition children :: "filesys \<Rightarrow> path \<Rightarrow> path list" where
  "children f p = remdups (filter (\<lambda>q. q \<noteq> [] \<and> parent q = p) (map fst f))"

definition remove_tree :: "path \<Rightarrow> filesys \<Rightarrow> filesys" where
  "remove_tree p f = filter (\<lambda>(q, n). \<not> prefix p q) f"

definition nl :: char where
  "nl = CHR 0x0A"

definition dq :: char where
  "dq = CHR 0x22"

fun join_lines :: "string list \<Rightarrow> string" where
  "join_lines [] = []"
| "join_lines [l] = l"
| "join_lines (l # ls) = l @ nl # join_lines ls"

definition path_str :: "path \<Rightarrow> string" where
  "path_str p = (if p = [] then ''/'' else concat (map (\<lambda>c. ''/'' @ c) p))"

subsection \<open>Values of the parsers, commands, messages, exceptions\<close>

text \<open>
  \<open>yaml\<close> is what \<^verbatim>\<open>yaml.safe_load\<close> returns and \<open>json\<close> what \<^verbatim>\<open>response.json()\<close>
  returns. Floats and dates are left out (they behave like \<open>YInt\<close> wherever the tool
  looks at them), and so are mapping keys that are not strings (the tool only asks for
  string keys).
\<close>

datatype yaml = YNone | YBool bool | YInt int | YStr string
  | YList "yaml list" | YMap "(string \<times> yaml) list"

datatype json = JNull | JBool bool | JNum int | JStr string
  | JArr "json list" | JObj "(string \<times> json) list"

datatype http_result = RequestError string | Response "json option"

datatype proc = Exited int string | SpawnFailed

text \<open>
  The shell command strings of the source are kept structured: what an f-string
  interpolates is stored as the value interpolated.
  \<^item> \<open>VersionCmd py\<close> is \<^verbatim>\<open>[py, "-m", "airflow", "version"]\<close>;
  \<^item> \<open>InstallCmd py version extras url requirements\<close> is the pip upgrade followed by
    the pinned install, with \<^verbatim>\<open>-r requirements\<close> appended when given;
  \<^item> \<open>StandaloneCmd a\<close> is \<^verbatim>\<open>{activate_cmd} && airflow standalone\<close>.
\<close>

datatype url = ConstraintsUrl yaml yaml

datatype venv_loc = VenvGiven string | VenvDefault path yaml yaml

datatype activate = Source venv_loc | Call venv_loc

datatype cmd = VersionCmd path
  | InstallCmd path yaml string url "string option"
  | StandaloneCmd activate

datatype msg = MsgInitialized path
  | MsgLatest json | MsgRetrieveError "string option" | MsgDefaulting
  | MsgRecreating path | MsgVenvInvalid path | MsgVenvCreated path
  | MsgAlreadyInstalled yaml | MsgRunning cmd | MsgInstalled yaml | MsgVenvAt path
  | MsgInstallError
  | MsgKeyNotFound string | MsgSettingsNotFound path | MsgBuilt
  | MsgDotenvError | MsgUnsupportedOS
  | MsgConfigNotFound path | MsgEnvNotFound | MsgStartError

datatype event = Echo msg | Prompt path | Spawn cmd | VenvCreate path | Rmtree path

datatype pyexc = FileNotFoundError | FileExistsError | NotADirectoryError
  | IsADirectoryError | TypeError | KeyError | AttributeError
  | JSONDecodeError | YAMLError | OSError | MarkupError

text \<open>
  How a run ends when it does not return: \<^verbatim>\<open>raise typer.Exit(n)\<close>, \<^verbatim>\<open>raise SystemExit()\<close>,
  a declined \<^verbatim>\<open>typer.confirm(..., abort=True)\<close>, or an exception nobody catches.
\<close>

datatype exc = TyperExit int | SysExit | Abort | Uncaught pyexc

fun exit_code :: "exc \<Rightarrow> int" where
  "exit_code (TyperExit n) = n"
| "exit_code SysExit = 0"
| "exit_code Abort = 1"
| "exit_code (Uncaught e) = 1"

record world =
  fs :: filesys
  environ :: "(string \<times> string) list"
  trace :: "event list"

text \<open>
  The outside, as one run of a command meets it:
  \<^item> \<open>pkg_dir\<close> is \<^verbatim>\<open>Path(__file__).parent\<close>, where the bundled example DAGs live;
  \<^item> \<open>confirm_answer\<close> is what the user answers at the prompt;
  \<^item> \<open>http_get\<close> is the outcome of the request to the package index: a transport error
    with its text, or a response whose body is JSON (\<open>Some\<close>) or is not (\<open>None\<close>);
  \<^item> \<open>rich_renders\<close> says of a message with interpolated text whether \<^verbatim>\<open>rich\<close> can
    render it as console markup;
  \<^item> \<open>yaml_safe_load\<close> and \<open>dotenv_values\<close> are the two parsers, \<open>None\<close> where they raise;
  \<^item> \<open>os_name\<close> is \<^verbatim>\<open>os.name\<close>;
  \<^item> \<open>run\<close> gives, for a child process, its exit status and captured output when it is
    spawned (a run spawns each command at most once). What a child does to the file
    system is not modelled.
\<close>

record ext =
  pkg_dir :: path
  confirm_answer :: bool
  http_get :: http_result
  yaml_safe_load :: "string \<Rightarrow> yaml option"
  dotenv_values :: "string \<Rightarrow> (string \<times> string) list option"
  os_name :: string
  rich_renders :: "msg \<Rightarrow> bool"
  run :: "cmd \<Rightarrow> proc"

subsection \<open>Programs\<close>

type_synonym 'a prog = "world \<Rightarrow> (exc + 'a) \<times> world"

definition ret :: "'a \<Rightarrow> 'a prog" where
  "ret a w = (Inr a, w)"

definition throw :: "exc \<Rightarrow> 'a prog" where
  "throw e w = (Inl e, w)"

definition bind :: "'a prog \<Rightarrow> ('a \<Rightarrow> 'b prog) \<Rightarrow> 'b prog" where
  "bind m k w = (case m w of (Inl e, w') \<Rightarrow> (Inl e, w') | (Inr a, w') \<Rightarrow> k a w')"

definition emit :: "event \<Rightarrow> unit prog" where
  "emit ev w = (Inr (), w\<lparr>trace := trace w @ [ev]\<rparr>)"

definition test :: "(filesys \<Rightarrow> bool) \<Rightarrow> bool prog" where
  "test c w = (Inr (c (fs w)), w)"

definition whenP :: "bool \<Rightarrow> unit prog \<Rightarrow> unit prog" where
  "whenP b m = (if b then m else ret ())"

definition put :: "path \<Rightarrow> node \<Rightarrow> unit prog" where
  "put p n w = (Inr (), w\<lparr>fs := store p n (fs w)\<rparr>)"

text \<open>
  The module imports \<^verbatim>\<open>print\<close> from \<^verbatim>\<open>rich\<close>, which reads its argument as console markup
  and raises \<^verbatim>\<open>MarkupError\<close> when the text has a closing tag that matches no open one
  (a version \<^verbatim>\<open>[/x]\<close>, say). The messages whose text is fixed, or whose interpolated text
  is the quoted key of a \<^verbatim>\<open>KeyError\<close>, always render; for the others \<open>rich_renders\<close>
  decides. \<^verbatim>\<open>typer.echo\<close> does not read markup and is a plain \<open>emit\<close>.
\<close>

fun is_literal :: "msg \<Rightarrow> bool" where
  "is_literal MsgDefaulting = True"
| "is_literal MsgInstallError = True"
| "is_literal (MsgRetrieveError None) = True"
| "is_literal m = False"

definition rich_print :: "ext \<Rightarrow> msg \<Rightarrow> unit prog" where
  "rich_print x m =
     (if is_literal m \<or> rich_renders x m then emit (Echo m)
      else throw (Uncaught MarkupError))"

text \<open>The exception of a system call on a path that is not there.\<close>

definition missing :: "filesys \<Rightarrow> path \<Rightarrow> pyexc option" where
  "missing f p = (case lookup f (parent p) of
       None \<Rightarrow> Some FileNotFoundError
     | Some (File c) \<Rightarrow> Some NotADirectoryError
     | Some Dir \<Rightarrow> None)"

text \<open>\<^verbatim>\<open>Path.mkdir(exist_ok=True)\<close>: an existing directory is accepted, an existing file raises.\<close>

definition mkdir_exist_ok :: "path \<Rightarrow> unit prog" where
  "mkdir_exist_ok p w = (case lookup (fs w) p of
       Some Dir \<Rightarrow> ret () w
     | Some (File c) \<Rightarrow> throw (Uncaught FileExistsError) w
     | None \<Rightarrow> (case missing (fs w) p of
           Some e \<Rightarrow> throw (Uncaught e) w
         | None \<Rightarrow> put p Dir w))"

text \<open>\<^verbatim>\<open>Path.touch(exist_ok=True)\<close>: whatever exists is left as it is.\<close>

definition touch_exist_ok :: "path \<Rightarrow> unit prog" where
  "touch_exist_ok p w = (case lookup (fs w) p of
       Some n \<Rightarrow> ret () w
     | None \<Rightarrow> (case missing (fs w) p of
           Some e \<Rightarrow> throw (Uncaught e) w
         | None \<Rightarrow> put p (File []) w))"

text \<open>\<^verbatim>\<open>open(p, "w")\<close> followed by one write, and \<^verbatim>\<open>Path.write_text\<close>.\<close>

definition write_text :: "path \<Rightarrow> string \<Rightarrow> unit prog" where
  "write_text p s w = (case lookup (fs w) p of
       Some Dir \<Rightarrow> throw (Uncaught IsADirectoryError) w
     | Some (File c) \<Rightarrow> put p (File s) w
     | None \<Rightarrow> (case missing (fs w) p of
           Some e \<Rightarrow> throw (Uncaught e) w
         | None \<Rightarrow> put p (File s) w))"

text \<open>\<^verbatim>\<open>open(p)\<close> followed by reading everything, and \<^verbatim>\<open>Path.read_text\<close>.\<close>

definition read_text :: "path \<Rightarrow> string prog" where
  "read_text p w = (case lookup (fs w) p of
       Some Dir \<Rightarrow> throw (Uncaught IsADirectoryError) w
     | Some (File c) \<Rightarrow> ret c w
     | None \<Rightarrow> (case missing (fs w) p of
           Some e \<Rightarrow> throw (Uncaught e) w
         | None \<Rightarrow> throw (Uncaught FileNotFoundError) w))"

text \<open>\<^verbatim>\<open>Path.iterdir\<close>, in the order of the association list.\<close>

definition iterdir :: "path \<Rightarrow> path list prog" where
  "iterdir p w = (case lookup (fs w) p of
       Some Dir \<Rightarrow> ret (children (fs w) p) w
     | Some (File c) \<Rightarrow> throw (Uncaught NotADirectoryError) w
     | None \<Rightarrow> throw (Uncaught FileNotFoundError) w)"

text \<open>\<^verbatim>\<open>typer.confirm(text, abort=True)\<close>.\<close>

definition confirm_abort :: "ext \<Rightarrow> path \<Rightarrow> unit prog" where
  "confirm_abort x p = bind (emit (Prompt p))
     (\<lambda>_. if confirm_answer x then ret () else throw Abort)"

subsection \<open>The project scaffolder\<close>

definition HIDDEN_CONFIG_FILENAME :: path where
  "HIDDEN_CONFIG_FILENAME = [''.airflowctl'', ''config.yaml'']"

definition SETTINGS_FILENAME :: string where
  "SETTINGS_FILENAME = ''settings.yaml''"

definition gitignore_text :: string where
  "gitignore_text = join_lines [''.git'', ''airflow.cfg'', ''airflow.db'',
     ''airflow-webserver.pid'', ''logs'', ''.DS_Store'', ''__pycache__/'', ''.env'',
     ''.venv'', ''.airflowctl'']"

definition settings_text :: "string \<Rightarrow> string \<Rightarrow> string" where
  "settings_text airflow_version python_version = join_lines [
     ''# Airflow version to be installed'',
     ''airflow_version: '' @ airflow_version,
     ''# Python version for the project'',
     ''python_version: '' @ [dq] @ python_version @ [dq],
     '''',
     ''# Airflow conn'',
     ''connections: {}'',
     ''# Airflow vars'',
     ''variables: {}'']"

definition env_text :: "path \<Rightarrow> string" where
  "env_text project_dir = join_lines [
     ''AIRFLOW_HOME='' @ path_str project_dir,
     ''AIRFLOW__CORE__LOAD_EXAMPLES=False'',
     ''AIRFLOW__CORE__EXECUTOR=LocalExecutor'']"

text \<open>The loop over the bundled example DAG files; \<open>last file\<close> is \<^verbatim>\<open>file.name\<close>.\<close>

fun copy_dags :: "path \<Rightarrow> path list \<Rightarrow> unit prog" where
  "copy_dags dags_dir [] w = (Inr (), w)"
| "copy_dags dags_dir (file # files) w =
     (if path_exists (fs w) (dags_dir @ [last file]) then copy_dags dags_dir files w
      else (case read_text file w of
          (Inl e, w') \<Rightarrow> (Inl e, w')
        | (Inr c, w') \<Rightarrow> (case write_text (dags_dir @ [last file]) c w' of
              (Inl e, w'') \<Rightarrow> (Inl e, w'')
            | (Inr u, w'') \<Rightarrow> copy_dags dags_dir files w'')))"

definition create_project :: "ext \<Rightarrow> path \<Rightarrow> string \<Rightarrow> string \<Rightarrow> unit prog" where
  "create_project x project_dir airflow_version python_version =
     bind (mkdir_exist_ok project_dir) (\<lambda>_.
     bind (test (\<lambda>f. children f project_dir \<noteq> [])) (\<lambda>nonempty.
     bind (whenP nonempty (confirm_abort x project_dir)) (\<lambda>_.
     bind (mkdir_exist_ok (project_dir @ [''dags''])) (\<lambda>_.
     bind (iterdir (pkg_dir x @ [''dags''])) (\<lambda>files.
     bind (copy_dags (project_dir @ [''dags'']) files) (\<lambda>_.
     bind (mkdir_exist_ok (project_dir @ [''plugins''])) (\<lambda>_.
     bind (touch_exist_ok (project_dir @ [''requirements.txt''])) (\<lambda>_.
     bind (touch_exist_ok (project_dir @ [''.gitignore''])) (\<lambda>_.
     bind (write_text (project_dir @ [''.gitignore'']) gitignore_text) (\<lambda>_.
     bind (test (\<lambda>f. path_exists f (project_dir @ [SETTINGS_FILENAME]))) (\<lambda>has_settings.
     bind (whenP (\<not> has_settings)
             (write_text (project_dir @ [SETTINGS_FILENAME])
                (settings_text airflow_version python_version))) (\<lambda>_.
     bind (test (\<lambda>f. path_exists f (project_dir @ [''.env'']))) (\<lambda>has_env.
     bind (whenP (\<not> has_env)
             (write_text (project_dir @ [''.env'']) (env_text project_dir))) (\<lambda>_.
     emit (Echo (MsgInitialized project_dir))))))))))))))))"

text \<open>
  The command \<^verbatim>\<open>init\<close>: its options arrive resolved (the default of \<^verbatim>\<open>--airflow-version\<close>
  is what the version resolver returned).
\<close>

definition init :: "ext \<Rightarrow> path \<Rightarrow> string \<Rightarrow> string \<Rightarrow> unit prog" where
  "init x project_name airflow_version python_version =
     create_project x project_name airflow_version python_version"

subsection \<open>The version resolver\<close>

text \<open>
  \<^verbatim>\<open>data[key]\<close> on what \<^verbatim>\<open>response.json()\<close> returned: a missing key of an object is a
  \<^verbatim>\<open>KeyError\<close>, subscripting anything else with a string is a \<^verbatim>\<open>TypeError\<close>.
\<close>

fun json_getitem :: "json \<Rightarrow> string \<Rightarrow> pyexc + json" where
  "json_getitem (JObj kvs) k = (case map_of kvs k of None \<Rightarrow> Inl KeyError | Some v \<Rightarrow> Inr v)"
| "json_getitem j k = Inl TypeError"

definition fallback_version :: json where
  "fallback_version = JStr ''2.7.0''"

text \<open>
  The handler of \<^verbatim>\<open>except (httpx.RequestError, KeyError) as e\<close>; \<open>cause\<close> is the text of
  the request error, or \<open>None\<close> for a \<^verbatim>\<open>KeyError\<close>.
\<close>

definition version_fallback :: "ext \<Rightarrow> bool \<Rightarrow> string option \<Rightarrow> json prog" where
  "version_fallback x verbose cause =
     bind (whenP verbose (bind (rich_print x (MsgRetrieveError cause))
                            (\<lambda>_. rich_print x MsgDefaulting)))
       (\<lambda>_. ret fallback_version)"

text \<open>\<^verbatim>\<open>data["info"]["version"]\<close>.\<close>

definition version_field :: "json \<Rightarrow> pyexc + json" where
  "version_field data = (case json_getitem data ''info'' of
       Inl e \<Rightarrow> Inl e
     | Inr info \<Rightarrow> json_getitem info ''version'')"

definition get_latest_airflow_version :: "ext \<Rightarrow> bool \<Rightarrow> json prog" where
  "get_latest_airflow_version x verbose = (case http_get x of
       RequestError cause \<Rightarrow> version_fallback x verbose (Some cause)
     | Response None \<Rightarrow> throw (Uncaught JSONDecodeError)
     | Response (Some data) \<Rightarrow> (case version_field data of
           Inl e \<Rightarrow> (if e = KeyError then version_fallback x verbose None
                     else throw (Uncaught e))
         | Inr latest_version \<Rightarrow>
             bind (whenP verbose (rich_print x (MsgLatest latest_version)))
               (\<lambda>_. ret latest_version)))"

subsection \<open>The environment provisioner\<close>

definition venv_bin_python :: "path \<Rightarrow> path" where
  "venv_bin_python venv_path = venv_path @ [''bin'', ''python'']"

definition rmtree :: "path \<Rightarrow> unit prog" where
  "rmtree p w = (case lookup (fs w) p of
       Some Dir \<Rightarrow> (Inr (), w\<lparr>fs := remove_tree p (fs w), trace := trace w @ [Rmtree p]\<rparr>)
     | Some (File c) \<Rightarrow> throw (Uncaught NotADirectoryError) w
     | None \<Rightarrow> throw (Uncaught FileNotFoundError) w)"

fun makedirs :: "path list \<Rightarrow> filesys \<Rightarrow> pyexc + filesys" where
  "makedirs [] f = Inr f"
| "makedirs (q # qs) f = (case lookup f q of
       Some Dir \<Rightarrow> makedirs qs f
     | Some (File c) \<Rightarrow> Inl NotADirectoryError
     | None \<Rightarrow> makedirs qs (store q Dir f))"

text \<open>
  \<^verbatim>\<open>venv.create(p, with_pip=True)\<close>: the directories down to \<open>p\<close>, and the interpreter
  where the platform puts it. A failure of the bundled pip bootstrap is not modelled.
\<close>

definition venv_create :: "ext \<Rightarrow> path \<Rightarrow> unit prog" where
  "venv_create x p w = (case makedirs (prefixes p) (fs w) of
       Inl e \<Rightarrow> throw (Uncaught e) w
     | Inr f \<Rightarrow> (Inr (), w\<lparr>fs :=
         (if os_name x = ''nt''
          then store (p @ [''Scripts'', ''python.exe'']) (File []) (store (p @ [''Scripts'']) Dir f)
          else store (p @ [''bin'', ''python'']) (File []) (store (p @ [''bin'']) Dir f)),
         trace := trace w @ [VenvCreate p]\<rparr>))"

definition verify_or_create_venv :: "ext \<Rightarrow> path \<Rightarrow> bool \<Rightarrow> path prog" where
  "verify_or_create_venv x venv_path recreate =
     bind (test (\<lambda>f. recreate \<and> path_exists f venv_path)) (\<lambda>stale.
     bind (whenP stale (bind (rich_print x (MsgRecreating venv_path))
                          (\<lambda>_. rmtree venv_path))) (\<lambda>_.
     bind (test (\<lambda>f. path_exists f venv_path
                     \<and> \<not> path_exists f (venv_bin_python venv_path))) (\<lambda>invalid.
     bind (whenP invalid (bind (rich_print x (MsgVenvInvalid venv_path))
                            (\<lambda>_. throw SysExit))) (\<lambda>_.
     bind (test (\<lambda>f. \<not> path_exists f venv_path)) (\<lambda>absent.
     bind (whenP absent (bind (venv_create x venv_path)
                           (\<lambda>_. rich_print x (MsgVenvCreated venv_path)))) (\<lambda>_.
     ret venv_path))))))"

subsection \<open>The package installer\<close>

text \<open>
  \<^verbatim>\<open>subprocess.run(..., check=True)\<close>: a non-zero status raises \<^verbatim>\<open>CalledProcessError\<close>,
  which each caller catches; a command that cannot be started raises an \<^verbatim>\<open>OSError\<close>,
  which nobody catches. The standard output of the version command is captured and
  never looked at.
\<close>

definition is_airflow_installed :: "ext \<Rightarrow> path \<Rightarrow> bool prog" where
  "is_airflow_installed x venv_path =
     bind (test (\<lambda>f. path_exists f (venv_bin_python venv_path))) (\<lambda>found.
     if \<not> found then ret False
     else bind (emit (Spawn (VersionCmd (venv_bin_python venv_path)))) (\<lambda>_.
       (case run x (VersionCmd (venv_bin_python venv_path)) of
          Exited status out \<Rightarrow> ret (status = 0)
        | SpawnFailed \<Rightarrow> throw (Uncaught OSError))))"

definition install_airflow ::
  "ext \<Rightarrow> yaml \<Rightarrow> path \<Rightarrow> url \<Rightarrow> string \<Rightarrow> string \<Rightarrow> bool \<Rightarrow> unit prog" where
  "install_airflow x version venv_path constraints_url extras requirements verbose =
     bind (is_airflow_installed x venv_path) (\<lambda>installed.
     if installed then rich_print x (MsgAlreadyInstalled version)
     else bind (test (\<lambda>f. path_exists f (venv_bin_python venv_path))) (\<lambda>found.
       if \<not> found
       then bind (rich_print x (MsgVenvInvalid venv_path)) (\<lambda>_. throw SysExit)
       else (let install_command = InstallCmd (venv_bin_python venv_path) version extras
                     constraints_url (if requirements = [] then None else Some requirements)
         in bind (whenP verbose (rich_print x (MsgRunning install_command))) (\<lambda>_.
            bind (emit (Spawn install_command)) (\<lambda>_.
            (case run x install_command of
               Exited status out \<Rightarrow>
                 (if status = 0
                  then bind (rich_print x (MsgInstalled version))
                         (\<lambda>_. rich_print x (MsgVenvAt venv_path))
                  else bind (rich_print x MsgInstallError) (\<lambda>_. throw SysExit))
             | SpawnFailed \<Rightarrow> throw (Uncaught OSError)))))))"

subsection \<open>The command \<open>build\<close>\<close>

text \<open>
  \<^verbatim>\<open>key in settings\<close> and \<^verbatim>\<open>settings[key]\<close> on what the YAML parser returned: a mapping
  is asked for the key, a string for a substring, a list for an element; the scalars
  are not iterable and nothing but a mapping can be subscripted with a string.
\<close>

fun substring :: "string \<Rightarrow> string \<Rightarrow> bool" where
  "substring k [] = (k = [])"
| "substring k (c # s) = (prefix k (c # s) \<or> substring k s)"

fun py_contains :: "yaml \<Rightarrow> string \<Rightarrow> pyexc + bool" where
  "py_contains (YMap kvs) k = Inr (map_of kvs k \<noteq> None)"
| "py_contains (YStr s) k = Inr (substring k s)"
| "py_contains (YList ys) k = Inr (YStr k \<in> set ys)"
| "py_contains y k = Inl TypeError"

fun py_getitem :: "yaml \<Rightarrow> string \<Rightarrow> pyexc + yaml" where
  "py_getitem (YMap kvs) k = (case map_of kvs k of None \<Rightarrow> Inl KeyError | Some v \<Rightarrow> Inr v)"
| "py_getitem y k = Inl TypeError"

definition get_conf_or_raise :: "string \<Rightarrow> yaml \<Rightarrow> yaml prog" where
  "get_conf_or_raise key settings = (case py_contains settings key of
       Inl e \<Rightarrow> throw (Uncaught e)
     | Inr present \<Rightarrow>
         (if \<not> present
          then bind (emit (Echo (MsgKeyNotFound key))) (\<lambda>_. throw (TyperExit 1))
          else (case py_getitem settings key of
                  Inl e \<Rightarrow> throw (Uncaught e)
                | Inr v \<Rightarrow> ret v)))"

text \<open>\<^verbatim>\<open>with open(p) as f: config = yaml.safe_load(f)\<close>.\<close>

definition load_yaml :: "ext \<Rightarrow> path \<Rightarrow> yaml prog" where
  "load_yaml x p = bind (read_text p) (\<lambda>c.
     (case yaml_safe_load x c of
        None \<Rightarrow> throw (Uncaught YAMLError)
      | Some config \<Rightarrow> ret config))"

definition build :: "ext \<Rightarrow> path \<Rightarrow> path \<Rightarrow> path \<Rightarrow> bool \<Rightarrow> unit prog" where
  "build x project_path settings_file venv_path recreate_venv =
     bind (test (\<lambda>f. path_exists f (project_path @ [SETTINGS_FILENAME]))) (\<lambda>found.
     if \<not> found
     then bind (emit (Echo (MsgSettingsNotFound settings_file))) (\<lambda>_. throw (TyperExit 1))
     else bind (load_yaml x settings_file) (\<lambda>config.
          bind (get_conf_or_raise ''airflow_version'' config) (\<lambda>airflow_version.
          bind (get_conf_or_raise ''python_version'' config) (\<lambda>python_version.
          bind (verify_or_create_venv x venv_path recreate_venv) (\<lambda>venv.
          bind (install_airflow x airflow_version venv
                  (ConstraintsUrl airflow_version python_version) [] [] False) (\<lambda>_.
          emit (Echo MsgBuilt)))))))"

subsection \<open>The command \<open>start\<close>\<close>

definition setenv :: "string \<Rightarrow> string \<Rightarrow> unit prog" where
  "setenv k v w = (Inr (), w\<lparr>environ := AList.update k v (environ w)\<rparr>)"

text \<open>
  \<^verbatim>\<open>load_dotenv(p)\<close> adds the bindings of the file that the environment does not have
  yet, and loads nothing from a path that is not a file. \<open>source_env_file\<close> turns any
  exception of it into exit code 1.
\<close>

definition setdefaults :: "(string \<times> string) list \<Rightarrow> (string \<times> string) list
    \<Rightarrow> (string \<times> string) list" where
  "setdefaults kvs env =
     foldl (\<lambda>e (k, v). if map_of e k \<noteq> None then e else AList.update k v e) env kvs"

definition source_env_file :: "ext \<Rightarrow> path \<Rightarrow> unit prog" where
  "source_env_file x env_file w = (case lookup (fs w) env_file of
       Some (File c) \<Rightarrow> (case dotenv_values x c of
           None \<Rightarrow> bind (emit (Echo MsgDotenvError)) (\<lambda>_. throw (TyperExit 1)) w
         | Some kvs \<Rightarrow> (Inr (), w\<lparr>environ := setdefaults kvs (environ w)\<rparr>))
     | _ \<Rightarrow> ret () w)"

definition activate_virtualenv :: "ext \<Rightarrow> venv_loc \<Rightarrow> activate prog" where
  "activate_virtualenv x venv_path =
     (if os_name x = ''posix'' then ret (Source venv_path)
      else if os_name x = ''nt'' then ret (Call venv_path)
      else bind (emit (Echo MsgUnsupportedOS)) (\<lambda>_. throw (TyperExit 1)))"

text \<open>\<^verbatim>\<open>config.get(key)\<close>: only a mapping has the method.\<close>

fun py_get :: "yaml \<Rightarrow> string \<Rightarrow> pyexc + yaml" where
  "py_get (YMap kvs) k = Inr (case map_of kvs k of None \<Rightarrow> YNone | Some v \<Rightarrow> v)"
| "py_get y k = Inl AttributeError"

text \<open>
  \<^verbatim>\<open>os.path.abspath(config.get("venv_path", default))\<close>, where the default is built from
  \<^verbatim>\<open>config.get('airflow_version')\<close> and \<^verbatim>\<open>config.get('python_version')\<close>; a configured
  value that is not a string makes \<^verbatim>\<open>abspath\<close> raise.
\<close>

definition resolve_venv :: "path \<Rightarrow> yaml \<Rightarrow> pyexc + venv_loc" where
  "resolve_venv project_path config = (case py_get config ''airflow_version'' of
       Inl e \<Rightarrow> Inl e
     | Inr av \<Rightarrow> (case py_get config ''python_version'' of
           Inl e \<Rightarrow> Inl e
         | Inr pv \<Rightarrow> (case py_getitem config ''venv_path'' of
               Inl e \<Rightarrow> Inr (VenvDefault project_path av pv)
             | Inr (YStr s) \<Rightarrow> Inr (VenvGiven s)
             | Inr v \<Rightarrow> Inl TypeError)))"

definition start :: "ext \<Rightarrow> path \<Rightarrow> unit prog" where
  "start x project_path =
     (let config_file = project_path @ [''config.yaml''];
          env_file = project_path @ [''.env''] in
     bind (test (\<lambda>f. path_exists f config_file)) (\<lambda>has_config.
     if \<not> has_config
     then bind (emit (Echo (MsgConfigNotFound config_file))) (\<lambda>_. throw (TyperExit 1))
     else bind (test (\<lambda>f. path_exists f env_file)) (\<lambda>has_env.
     if \<not> has_env
     then bind (emit (Echo MsgEnvNotFound)) (\<lambda>_. throw (TyperExit 1))
     else bind (load_yaml x config_file) (\<lambda>config.
          bind (source_env_file x env_file) (\<lambda>_.
          bind (setenv ''AIRFLOW_HOME'' (path_str project_path)) (\<lambda>_.
          bind (setenv ''AIRFLOW__DATABASE__SQL_ALCHEMY_CONN''
                  (''sqlite:///'' @ path_str (project_path @ [''airflow.db'']))) (\<lambda>_.
          (case resolve_venv project_path config of
             Inl e \<Rightarrow> throw (Uncaught e)
           | Inr venv_path \<Rightarrow>
               bind (activate_virtualenv x venv_path) (\<lambda>activate_cmd.
               bind (emit (Spawn (StandaloneCmd activate_cmd))) (\<lambda>_.
               (case run x (StandaloneCmd activate_cmd) of
                  Exited status out \<Rightarrow>
                    (if status = 0 then ret ()
                     else bind (emit (Echo MsgStartError)) (\<lambda>_. throw (TyperExit 1)))
                | SpawnFailed \<Rightarrow> throw (Uncaught OSError))))))))))))"

section \<open>Observations and assertions\<close>

text \<open>
  What a run leaves behind besides messages: the child processes it spawned and the
  virtual environments it created or removed. \<open>installs\<close> keeps the install commands only.
\<close>

fun is_effect :: "event \<Rightarrow> bool" where
  "is_effect (Echo m) = False"
| "is_effect (Prompt p) = False"
| "is_effect ev = True"

definition effects :: "event list \<Rightarrow> event list" where
  "effects t = filter is_effect t"

fun is_install :: "event \<Rightarrow> bool" where
  "is_install (Spawn (InstallCmd py v e u r)) = True"
| "is_install ev = False"

definition installs :: "event list \<Rightarrow> event list" where
  "installs t = filter is_install t"

text \<open>
  A settings document contains a key when it is a mapping with that key; a file that
  does not parse contains none.
\<close>

fun has_key :: "yaml \<Rightarrow> string \<Rightarrow> bool" where
  "has_key (YMap kvs) k = (map_of kvs k \<noteq> None)"
| "has_key y k = False"

fun lacks_key :: "yaml option \<Rightarrow> string \<Rightarrow> bool" where
  "lacks_key None k = True"
| "lacks_key (Some config) k = (\<not> has_key config k)"

text \<open>
  Assertions about programs: \<open>keeps I m\<close> says that \<open>m\<close> preserves \<open>I\<close> however it ends,
  \<open>ensures P m Q\<close> that a run of \<open>m\<close> from \<open>P\<close> that returns ends in \<open>Q\<close>, and
  \<open>returns m v\<close> that \<open>m\<close> can only return \<open>v\<close>.
\<close>

definition keeps :: "(world \<Rightarrow> bool) \<Rightarrow> 'a prog \<Rightarrow> bool" where
  "keeps I m \<longleftrightarrow> (\<forall>w r w'. I w \<longrightarrow> m w = (r, w') \<longrightarrow> I w')"

definition ensures :: "(world \<Rightarrow> bool) \<Rightarrow> 'a prog \<Rightarrow> (world \<Rightarrow> bool) \<Rightarrow> bool" where
  "ensures P m Q \<longleftrightarrow> (\<forall>w a w'. P w \<longrightarrow> m w = (Inr a, w') \<longrightarrow> Q w')"

definition returns :: "'a prog \<Rightarrow> 'a \<Rightarrow> bool" where
  "returns m v \<longleftrightarrow> (\<forall>w a w'. m w = (Inr a, w') \<longrightarrow> a = v)"

definition no_install :: "event list \<Rightarrow> world \<Rightarrow> bool" where
  "no_install t w \<longleftrightarrow> installs (trace w) = t"

definition absent :: "path \<Rightarrow> world \<Rightarrow> bool" where
  "absent q w \<longleftrightarrow> lookup (fs w) q = None"

definition holds :: "path \<Rightarrow> node \<Rightarrow> world \<Rightarrow> bool" where
  "holds q n w \<longleftrightarrow> lookup (fs w) q = Some n"

subsection \<open>Two example worlds\<close>

text \<open>
  \<open>fresh_world\<close> has the installed package with one bundled example DAG and no project;
  \<open>project_world\<close> has a project that was edited by hand, two incomplete settings files
  and a virtual environment. In \<open>demo_ext\<close> the user confirms, the index cannot be reached,
  the platform is POSIX, every child process exits with status 0 and the version command
  prints 2.6.3; every message renders but the two that interpolate the version \<^verbatim>\<open>[/x]\<close>.
  In \<open>declining_ext\<close> the user answers no at the prompt.
\<close>

definition demo_settings :: yaml where
  "demo_settings = YMap [(''airflow_version'', YStr ''2.7.0''), (''python_version'', YStr ''3.10''),
     (''connections'', YMap []), (''variables'', YMap [])]"

definition demo_yaml :: "string \<Rightarrow> yaml option" where
  "demo_yaml c =
     (if c = settings_text ''2.7.0'' ''3.10'' then Some demo_settings
      else if c = ''python_version: 3.10'' then Some (YMap [(''python_version'', YStr ''3.10'')])
      else if c = ''airflow_version: 2.7.0''
        then Some (YMap [(''airflow_version'', YStr ''2.7.0'')])
      else if c = ''venv_path: /opt/venv'' then Some (YMap [(''venv_path'', YStr ''/opt/venv'')])
      else None)"

definition demo_renders :: "msg \<Rightarrow> bool" where
  "demo_renders m = (m \<noteq> MsgLatest (JStr ''[/x]'') \<and> m \<noteq> MsgAlreadyInstalled (YStr ''[/x]''))"

definition demo_ext :: ext where
  "demo_ext = \<lparr>pkg_dir = [''pkg''], confirm_answer = True,
     http_get = RequestError ''connection refused'',
     yaml_safe_load = demo_yaml, dotenv_values = (\<lambda>c. Some []), os_name = ''posix'',
     rich_renders = demo_renders, run = (\<lambda>c. Exited 0 ''2.6.3'')\<rparr>"

definition declining_ext :: ext where
  "declining_ext = demo_ext\<lparr>confirm_answer := False\<rparr>"

definition pypi_ext :: "http_result \<Rightarrow> ext" where
  "pypi_ext r = demo_ext\<lparr>http_get := r\<rparr>"

definition fresh_world :: world where
  "fresh_world = \<lparr>fs = [([], Dir), ([''pkg''], Dir), ([''pkg'', ''dags''], Dir),
       ([''pkg'', ''dags'', ''example_dag.py''], File ''# example'')],
     environ = [], trace = []\<rparr>"

definition project_world :: world where
  "project_world = \<lparr>fs = [([], Dir), ([''pkg''], Dir), ([''pkg'', ''dags''], Dir),
       ([''proj''], Dir),
       ([''proj'', ''settings.yaml''], File (settings_text ''2.7.0'' ''3.10'')),
       ([''proj'', ''.env''], File ''AIRFLOW_HOME=/srv''),
       ([''proj'', ''.gitignore''], File ''node_modules''),
       ([''proj'', ''config.yaml''], File ''venv_path: /opt/venv''),
       ([''proj'', ''partial.yaml''], File ''python_version: 3.10''),
       ([''proj'', ''airflow_only.yaml''], File ''airflow_version: 2.7.0''),
       ([''proj'', ''.venv''], Dir), ([''proj'', ''.venv'', ''bin''], Dir),
       ([''proj'', ''.venv'', ''bin'', ''python''], File [])],
     environ = [], trace = []\<rparr>"

section \<open>Basic facts\<close>

lemma lookup_store: "lookup (store p n f) q = (if q = p then Some n else lookup f q)"
  by (simp add: lookup_def store_def update_conv')

lemma children_empty_iff:
  "children f d = [] \<longleftrightarrow> (\<forall>q. q \<noteq> [] \<and> parent q = d \<longrightarrow> lookup f q = None)"
  by (auto simp: children_def lookup_def filter_empty_conv map_of_eq_None_iff image_iff)

lemma empty_dir_absent: "children f d = [] \<Longrightarrow> lookup f (d @ [n]) = None"
  by (simp add: children_empty_iff parent_def)

lemma bind_ret: "bind (ret a) k = k a"
  by (rule ext) (simp add: bind_def ret_def)

lemma bind_throw: "bind (throw e) k = throw e"
  by (rule ext) (simp add: bind_def throw_def)

lemma bind_test: "bind (test c) k w = k (c (fs w)) w"
  by (simp add: bind_def test_def)

lemma bind_emit: "bind (emit ev) k w = k () (w\<lparr>trace := trace w @ [ev]\<rparr>)"
  by (simp add: bind_def emit_def)

lemma whenP_simps: "whenP True m = m" "whenP False m = ret ()"
  by (simp_all add: whenP_def)

lemmas run_simps = bind_ret bind_throw bind_test bind_emit whenP_simps

lemmas fs_defs = lookup_def store_def path_exists_def parent_def children_def remove_tree_def
  missing_def

lemmas prog_defs = ret_def throw_def bind_def emit_def test_def whenP_def put_def rich_print_def
  mkdir_exist_ok_def touch_exist_ok_def write_text_def read_text_def iterdir_def
  confirm_abort_def

lemmas venv_defs = venv_bin_python_def rmtree_def venv_create_def verify_or_create_venv_def
  is_airflow_installed_def install_airflow_def

lemmas build_defs = get_conf_or_raise_def load_yaml_def build_def SETTINGS_FILENAME_def

lemmas start_defs = setenv_def setdefaults_def source_env_file_def activate_virtualenv_def
  resolve_venv_def start_def path_str_def

lemmas demo_defs = demo_ext_def demo_yaml_def demo_settings_def demo_renders_def

lemmas text_defs = settings_text_def nl_def dq_def

subsection \<open>Invariants of programs\<close>

lemma keepsD: "keeps I m \<Longrightarrow> I w \<Longrightarrow> m w = (r, w') \<Longrightarrow> I w'"
  unfolding keeps_def by blast

lemma keepsI: "(\<And>w r w'. I w \<Longrightarrow> m w = (r, w') \<Longrightarrow> I w') \<Longrightarrow> keeps I m"
  unfolding keeps_def by blast

lemma keeps_ret: "keeps I (ret a)"
  by (simp add: keeps_def ret_def)

lemma keeps_throw: "keeps I (throw e)"
  by (simp add: keeps_def throw_def)

lemma keeps_bind:
  assumes m: "keeps I m" and k: "\<And>a. keeps I (k a)"
  shows "keeps I (bind m k)"
proof (rule keepsI)
  fix w r w'
  assume I: "I w" and run: "bind m k w = (r, w')"
  obtain r1 w1 where r1: "m w = (r1, w1)" by (cases "m w")
  from keepsD [OF m I r1] have I1: "I w1" .
  show "I w'"
  proof (cases r1)
    case (Inl e)
    with run r1 have "w' = w1" by (simp add: bind_def)
    with I1 show ?thesis by simp
  next
    case (Inr a)
    with run r1 have "k a w1 = (r, w')" by (simp add: bind_def)
    from keepsD [OF k I1 this] show ?thesis .
  qed
qed



lemma keeps_test_plain: "keeps I (test c)"
  by (rule keepsI) (simp add: test_def)

lemma keeps_whenP: "keeps I m \<Longrightarrow> keeps I (whenP b m)"
  by (simp add: whenP_def keeps_ret)

lemma keeps_emit:
  assumes "\<And>w. I w \<Longrightarrow> I (w\<lparr>trace := trace w @ [ev]\<rparr>)"
  shows "keeps I (emit ev)"
proof -
  have "I w'" if "I w" and "emit ev w = (r, w')" for w r w'
  proof -
    from that(2) have "w' = w\<lparr>trace := trace w @ [ev]\<rparr>" by (simp add: emit_def)
    with assms [OF that(1)] show ?thesis by simp
  qed
  then show ?thesis unfolding keeps_def by blast
qed

lemma keeps_put:
  assumes "\<And>w. I w \<Longrightarrow> I (w\<lparr>fs := store p n (fs w)\<rparr>)"
  shows "keeps I (put p n)"
proof -
  have "I w'" if "I w" and "put p n w = (r, w')" for w r w'
  proof -
    from that(2) have "w' = w\<lparr>fs := store p n (fs w)\<rparr>" by (simp add: put_def)
    with assms [OF that(1)] show ?thesis by simp
  qed
  then show ?thesis unfolding keeps_def by blast
qed

lemma keeps_mkdir: 
  assumes "keeps I (put p Dir)" shows "keeps I (mkdir_exist_ok p)"
proof -
  have "I w'" if "I w" and "mkdir_exist_ok p w = (r, w')" for w r w'
  proof (cases "mkdir_exist_ok p w = put p Dir w")
    case True
    with that keepsD [OF assms] show ?thesis by metis
  next
    case False
    then have "snd (mkdir_exist_ok p w) = w"
      by (simp add: mkdir_exist_ok_def ret_def throw_def split: option.splits node.splits)
    with that show ?thesis by simp
  qed
  then show ?thesis unfolding keeps_def by blast
qed

lemma keeps_touch:
  assumes "keeps I (put p (File []))" shows "keeps I (touch_exist_ok p)"
proof -
  have "I w'" if "I w" and "touch_exist_ok p w = (r, w')" for w r w'
  proof (cases "touch_exist_ok p w = put p (File []) w")
    case True
    with that keepsD [OF assms] show ?thesis by metis
  next
    case False
    then have "snd (touch_exist_ok p w) = w"
      by (simp add: touch_exist_ok_def ret_def throw_def split: option.splits node.splits)
    with that show ?thesis by simp
  qed
  then show ?thesis unfolding keeps_def by blast
qed

lemma keeps_write:
  assumes "keeps I (put p (File s))" shows "keeps I (write_text p s)"
proof -
  have "I w'" if "I w" and "write_text p s w = (r, w')" for w r w'
  proof (cases "write_text p s w = put p (File s) w")
    case True
    with that keepsD [OF assms] show ?thesis by metis
  next
    case False
    then have "snd (write_text p s w) = w"
      by (simp add: write_text_def ret_def throw_def split: option.splits node.splits)
    with that show ?thesis by simp
  qed
  then show ?thesis unfolding keeps_def by blast
qed

lemma read_text_world: "snd (read_text p w) = w"
  by (simp add: read_text_def ret_def throw_def split: option.splits node.splits)

lemma iterdir_world: "snd (iterdir p w) = w"
  by (simp add: iterdir_def ret_def throw_def split: option.splits node.splits)

lemma keeps_read: "keeps I (read_text p)"
  unfolding keeps_def using read_text_world by (metis snd_conv)

lemma keeps_iterdir: "keeps I (iterdir p)"
  unfolding keeps_def using iterdir_world by (metis snd_conv)

lemma keeps_copy_dags:
  assumes put: "\<And>n c. keeps I (put (dd @ [n]) (File c))"
  shows "keeps I (copy_dags dd files)"
proof (induction files)
  case Nil
  show ?case by (rule keepsI) simp
next
  case (Cons a files)
  have rd: "keeps I (read_text a)" by (rule keeps_read)
  have wr: "keeps I (write_text (dd @ [last a]) c)" for c
    by (rule keeps_write) (rule put)
  show ?case
  proof (rule keepsI)
    fix w r w'
    assume I: "I w" and run: "copy_dags dd (a # files) w = (r, w')"
    show "I w'"
    proof (cases "path_exists (fs w) (dd @ [last a])")
      case True
      with run have "copy_dags dd files w = (r, w')" by simp
      from keepsD [OF Cons.IH I this] show ?thesis .
    next
      case False
      obtain r1 w1 where r1: "read_text a w = (r1, w1)" by (cases "read_text a w")
      from keepsD [OF rd I r1] have I1: "I w1" .
      show ?thesis
      proof (cases r1)
        case (Inl e)
        with run False r1 have "w' = w1" by simp
        with I1 show ?thesis by simp
      next
        case c: (Inr c)
        obtain r2 w2 where r2: "write_text (dd @ [last a]) c w1 = (r2, w2)"
          by (cases "write_text (dd @ [last a]) c w1")
        from keepsD [OF wr I1 r2] have I2: "I w2" .
        show ?thesis
        proof (cases r2)
          case (Inl e)
          with run False r1 c r2 have "w' = w2" by simp
          with I2 show ?thesis by simp
        next
          case (Inr u)
          with run False r1 c r2 have "copy_dags dd files w2 = (r, w')" by simp
          from keepsD [OF Cons.IH I2 this] show ?thesis .
        qed
      qed
    qed
  qed
qed


lemma keeps_confirm:
  assumes "keeps I (emit (Prompt p))" shows "keeps I (confirm_abort x p)"
  unfolding confirm_abort_def
  by (rule keeps_bind [OF assms]) (simp add: keeps_ret keeps_throw)

subsection \<open>Postconditions of runs that return\<close>

lemma ensuresI: "(\<And>w a w'. P w \<Longrightarrow> m w = (Inr a, w') \<Longrightarrow> Q w') \<Longrightarrow> ensures P m Q"
  unfolding ensures_def by blast

lemma ensuresD: "ensures P m Q \<Longrightarrow> P w \<Longrightarrow> m w = (Inr a, w') \<Longrightarrow> Q w'"
  unfolding ensures_def by blast

lemma ensures_keeps: "keeps I m \<Longrightarrow> ensures I m I"
  by (rule ensuresI) (rule keepsD)

lemma ensures_top: "ensures P m (\<lambda>w. True)"
  by (rule ensuresI) simp

lemma ensures_bind:
  assumes m: "ensures P m R" and k: "\<And>a. ensures R (k a) Q"
  shows "ensures P (bind m k) Q"
proof (rule ensuresI)
  fix w b w'
  assume P: "P w" and run: "bind m k w = (Inr b, w')"
  obtain r1 w1 where r1: "m w = (r1, w1)" by (cases "m w")
  show "Q w'"
  proof (cases r1)
    case (Inl e)
    with run r1 show ?thesis by (simp add: bind_def)
  next
    case (Inr a)
    with run r1 have "k a w1 = (Inr b, w')" by (simp add: bind_def)
    moreover from ensuresD [OF m P] r1 Inr have "R w1" by simp
    ultimately show ?thesis using ensuresD [OF k] by blast
  qed
qed

lemma ensures_kept: "keeps I m \<Longrightarrow> (\<And>a. ensures I (k a) Q) \<Longrightarrow> ensures I (bind m k) Q"
  by (rule ensures_bind [OF ensures_keeps])

lemma ensures_mkdir: "ensures P (mkdir_exist_ok p) (holds p Dir)"
  by (rule ensuresI)
     (auto simp: mkdir_exist_ok_def holds_def ret_def throw_def put_def lookup_store
           split: option.splits node.splits)

lemma ensures_touch: "ensures (absent p) (touch_exist_ok p) (holds p (File []))"
  by (rule ensuresI)
     (auto simp: touch_exist_ok_def holds_def absent_def ret_def throw_def put_def lookup_store
           split: option.splits node.splits)

lemma ensures_write: "ensures P (write_text p s) (holds p (File s))"
  by (rule ensuresI)
     (auto simp: write_text_def holds_def ret_def throw_def put_def lookup_store
           split: option.splits node.splits)

lemma ensures_guarded_write:
  assumes k: "ensures (holds p (File s)) (k ()) Q"
  shows "ensures (absent p) (bind (test (\<lambda>f. path_exists f p))
           (\<lambda>b. bind (whenP (\<not> b) (write_text p s)) k)) Q"
proof (rule ensuresI)
  fix w a w'
  assume "absent p w"
    and "bind (test (\<lambda>f. path_exists f p)) (\<lambda>b. bind (whenP (\<not> b) (write_text p s)) k) w
           = (Inr a, w')"
  then have run: "bind (write_text p s) k w = (Inr a, w')"
    by (simp add: bind_test absent_def path_exists_def whenP_simps)
  have e: "ensures (\<lambda>w. True) (bind (write_text p s) k) Q"
    by (rule ensures_bind [OF ensures_write]) (simp add: k)
  from ensuresD [OF e _ run] show "Q w'" by simp
qed

lemma returnsI: "(\<And>w a w'. m w = (Inr a, w') \<Longrightarrow> a = v) \<Longrightarrow> returns m v"
  unfolding returns_def by blast

lemma returnsD: "returns m v \<Longrightarrow> m w = (Inr a, w') \<Longrightarrow> a = v"
  unfolding returns_def by blast

lemma returns_ret: "returns (ret v) v"
  by (rule returnsI) (simp add: ret_def)

lemma returns_bind:
  assumes "\<And>a. returns (k a) v"
  shows "returns (bind m k) v"
proof (rule returnsI)
  fix w b w'
  assume run: "bind m k w = (Inr b, w')"
  obtain r1 w1 where r1: "m w = (r1, w1)" by (cases "m w")
  show "b = v"
  proof (cases r1)
    case (Inl e)
    with run r1 show ?thesis by (simp add: bind_def)
  next
    case (Inr a)
    with run r1 have "k a w1 = (Inr b, w')" by (simp add: bind_def)
    from returnsD [OF assms this] show ?thesis .
  qed
qed

lemma keeps_bind_returns:
  assumes m: "keeps I m" and v: "returns m v" and k: "keeps I (k v)"
  shows "keeps I (bind m k)"
proof (rule keepsI)
  fix w r w'
  assume I: "I w" and run: "bind m k w = (r, w')"
  obtain r1 w1 where r1: "m w = (r1, w1)" by (cases "m w")
  from keepsD [OF m I r1] have I1: "I w1" .
  show "I w'"
  proof (cases r1)
    case (Inl e)
    with run r1 have "w' = w1" by (simp add: bind_def)
    with I1 show ?thesis by simp
  next
    case (Inr a)
    with r1 returnsD [OF v] have "a = v" by blast
    with Inr run r1 have "k v w1 = (r, w')" by (simp add: bind_def)
    from keepsD [OF k I1 this] show ?thesis .
  qed
qed

section \<open>The project scaffolder\<close>

text \<open>
  A path that is absent stays absent, and a path that holds a node keeps it, under every
  step that works on another path.
\<close>

lemma keeps_absent_put: "p \<noteq> q \<Longrightarrow> keeps (absent q) (put p n)"
  by (rule keeps_put) (simp add: absent_def lookup_store)

lemma keeps_holds_put: "p \<noteq> q \<Longrightarrow> keeps (holds q v) (put p n)"
  by (rule keeps_put) (simp add: holds_def lookup_store)

lemma keeps_absent_emit: "keeps (absent q) (emit ev)"
  by (rule keeps_emit) (simp add: absent_def)

lemma keeps_holds_emit: "keeps (holds q v) (emit ev)"
  by (rule keeps_emit) (simp add: holds_def)

lemma keeps_absent_mkdir: "p \<noteq> q \<Longrightarrow> keeps (absent q) (mkdir_exist_ok p)"
  by (rule keeps_mkdir) (rule keeps_absent_put)

lemma keeps_absent_touch: "p \<noteq> q \<Longrightarrow> keeps (absent q) (touch_exist_ok p)"
  by (rule keeps_touch) (rule keeps_absent_put)

lemma keeps_absent_write: "p \<noteq> q \<Longrightarrow> keeps (absent q) (write_text p s)"
  by (rule keeps_write) (rule keeps_absent_put)

lemma keeps_absent_copy: "parent q \<noteq> dd \<Longrightarrow> keeps (absent q) (copy_dags dd files)"
  by (rule keeps_copy_dags, rule keeps_absent_put) (auto simp: parent_def)

lemma keeps_holds_mkdir: "p \<noteq> q \<Longrightarrow> keeps (holds q v) (mkdir_exist_ok p)"
  by (rule keeps_mkdir) (rule keeps_holds_put)

lemma keeps_holds_touch: "p \<noteq> q \<Longrightarrow> keeps (holds q v) (touch_exist_ok p)"
  by (rule keeps_touch) (rule keeps_holds_put)

lemma keeps_holds_write: "p \<noteq> q \<Longrightarrow> keeps (holds q v) (write_text p s)"
  by (rule keeps_write) (rule keeps_holds_put)

lemma keeps_holds_copy: "parent q \<noteq> dd \<Longrightarrow> keeps (holds q v) (copy_dags dd files)"
  by (rule keeps_copy_dags, rule keeps_holds_put) (auto simp: parent_def)

lemmas keeps_steps = keeps_bind keeps_whenP keeps_confirm keeps_test_plain keeps_iterdir
  keeps_ret keeps_throw
  keeps_absent_mkdir keeps_absent_touch keeps_absent_write keeps_absent_copy keeps_absent_emit
  keeps_holds_mkdir keeps_holds_touch keeps_holds_write keeps_holds_copy keeps_holds_emit

text \<open>
  One pass over \<open>create_project\<close> for each artifact: the steps before the one that makes
  it leave it absent (or are of no interest), the steps after it leave it alone.
\<close>

lemma create_project_dags:
  "ensures (\<lambda>w. True) (create_project x d av pv) (holds (d @ [''dags'']) Dir)"
  unfolding create_project_def
  apply (rule ensures_bind [OF ensures_top])
  apply (rule ensures_bind [OF ensures_top])
  apply (rule ensures_bind [OF ensures_top])
  apply (rule ensures_bind [OF ensures_mkdir])
  apply (rule ensures_keeps)
  apply (intro keeps_steps)
  apply (simp_all add: parent_def SETTINGS_FILENAME_def)
  done

lemma create_project_plugins:
  "ensures (\<lambda>w. True) (create_project x d av pv) (holds (d @ [''plugins'']) Dir)"
  unfolding create_project_def
  apply (rule ensures_bind [OF ensures_top])
  apply (rule ensures_bind [OF ensures_top])
  apply (rule ensures_bind [OF ensures_top])
  apply (rule ensures_bind [OF ensures_top])
  apply (rule ensures_bind [OF ensures_top])
  apply (rule ensures_bind [OF ensures_top])
  apply (rule ensures_bind [OF ensures_mkdir])
  apply (rule ensures_keeps)
  apply (intro keeps_steps)
  apply (simp_all add: parent_def SETTINGS_FILENAME_def)
  done

lemma create_project_gitignore:
  "ensures (\<lambda>w. True) (create_project x d av pv)
     (holds (d @ [''.gitignore'']) (File gitignore_text))"
  unfolding create_project_def
  apply (rule ensures_bind [OF ensures_top])
  apply (rule ensures_bind [OF ensures_top])
  apply (rule ensures_bind [OF ensures_top])
  apply (rule ensures_bind [OF ensures_top])
  apply (rule ensures_bind [OF ensures_top])
  apply (rule ensures_bind [OF ensures_top])
  apply (rule ensures_bind [OF ensures_top])
  apply (rule ensures_bind [OF ensures_top])
  apply (rule ensures_bind [OF ensures_top])
  apply (rule ensures_bind [OF ensures_write])
  apply (rule ensures_keeps)
  apply (intro keeps_steps)
  apply (simp_all add: parent_def SETTINGS_FILENAME_def)
  done

lemma create_project_requirements:
  "ensures (absent (d @ [''requirements.txt''])) (create_project x d av pv)
     (holds (d @ [''requirements.txt'']) (File []))"
  unfolding create_project_def
  apply (rule ensures_kept, (intro keeps_steps; simp add: parent_def))
  apply (rule ensures_kept, (intro keeps_steps; simp add: parent_def))
  apply (rule ensures_kept, (intro keeps_steps; simp add: parent_def))
  apply (rule ensures_kept, (intro keeps_steps; simp add: parent_def))
  apply (rule ensures_kept, (intro keeps_steps; simp add: parent_def))
  apply (rule ensures_kept, (intro keeps_steps; simp add: parent_def))
  apply (rule ensures_kept, (intro keeps_steps; simp add: parent_def))
  apply (rule ensures_bind [OF ensures_touch])
  apply (rule ensures_keeps)
  apply (intro keeps_steps)
  apply (simp_all add: parent_def SETTINGS_FILENAME_def)
  done

lemma create_project_settings:
  "ensures (absent (d @ [SETTINGS_FILENAME])) (create_project x d av pv)
     (holds (d @ [SETTINGS_FILENAME]) (File (settings_text av pv)))"
  unfolding create_project_def
  apply (rule ensures_kept, (intro keeps_steps; simp add: parent_def SETTINGS_FILENAME_def))
  apply (rule ensures_kept, (intro keeps_steps; simp add: parent_def SETTINGS_FILENAME_def))
  apply (rule ensures_kept, (intro keeps_steps; simp add: parent_def SETTINGS_FILENAME_def))
  apply (rule ensures_kept, (intro keeps_steps; simp add: parent_def SETTINGS_FILENAME_def))
  apply (rule ensures_kept, (intro keeps_steps; simp add: parent_def SETTINGS_FILENAME_def))
  apply (rule ensures_kept, (intro keeps_steps; simp add: parent_def SETTINGS_FILENAME_def))
  apply (rule ensures_kept, (intro keeps_steps; simp add: parent_def SETTINGS_FILENAME_def))
  apply (rule ensures_kept, (intro keeps_steps; simp add: parent_def SETTINGS_FILENAME_def))
  apply (rule ensures_kept, (intro keeps_steps; simp add: parent_def SETTINGS_FILENAME_def))
  apply (rule ensures_kept, (intro keeps_steps; simp add: parent_def SETTINGS_FILENAME_def))
  apply (rule ensures_guarded_write)
  apply (rule ensures_keeps)
  apply (intro keeps_steps)
  apply (simp_all add: parent_def SETTINGS_FILENAME_def)
  done

lemma create_project_env:
  "ensures (absent (d @ [''.env''])) (create_project x d av pv)
     (holds (d @ [''.env'']) (File (env_text d)))"
  unfolding create_project_def
  apply (rule ensures_kept, (intro keeps_steps; simp add: parent_def SETTINGS_FILENAME_def))
  apply (rule ensures_kept, (intro keeps_steps; simp add: parent_def SETTINGS_FILENAME_def))
  apply (rule ensures_kept, (intro keeps_steps; simp add: parent_def SETTINGS_FILENAME_def))
  apply (rule ensures_kept, (intro keeps_steps; simp add: parent_def SETTINGS_FILENAME_def))
  apply (rule ensures_kept, (intro keeps_steps; simp add: parent_def SETTINGS_FILENAME_def))
  apply (rule ensures_kept, (intro keeps_steps; simp add: parent_def SETTINGS_FILENAME_def))
  apply (rule ensures_kept, (intro keeps_steps; simp add: parent_def SETTINGS_FILENAME_def))
  apply (rule ensures_kept, (intro keeps_steps; simp add: parent_def SETTINGS_FILENAME_def))
  apply (rule ensures_kept, (intro keeps_steps; simp add: parent_def SETTINGS_FILENAME_def))
  apply (rule ensures_kept, (intro keeps_steps; simp add: parent_def SETTINGS_FILENAME_def))
  apply (rule ensures_kept, (intro keeps_steps; simp add: parent_def SETTINGS_FILENAME_def))
  apply (rule ensures_kept, (intro keeps_steps; simp add: parent_def SETTINGS_FILENAME_def))
  apply (rule ensures_guarded_write)
  apply (rule ensures_keeps)
  apply (intro keeps_steps)
  done

text \<open>
  Claim C1. When \<open>init\<close> runs on a target directory that is empty or does not exist yet
  (no entry below it) and returns without error, the project directory contains the six
  artifacts: the directories \<open>dags\<close> and \<open>plugins\<close> and the files \<open>settings.yaml\<close>,
  \<open>.env\<close>, \<open>.gitignore\<close> and \<open>requirements.txt\<close>, the first three files with the rendered
  contents and the last one empty.
\<close>

theorem init_creates_artifacts:
  assumes run: "init x d av pv w = (Inr u, w')"
      and empty: "children (fs w) d = []"
  shows "lookup (fs w') (d @ [''dags'']) = Some Dir
       \<and> lookup (fs w') (d @ [''plugins'']) = Some Dir
       \<and> lookup (fs w') (d @ [''settings.yaml'']) = Some (File (settings_text av pv))
       \<and> lookup (fs w') (d @ [''.env'']) = Some (File (env_text d))
       \<and> lookup (fs w') (d @ [''.gitignore'']) = Some (File gitignore_text)
       \<and> lookup (fs w') (d @ [''requirements.txt'']) = Some (File [])"
proof -
  from run have cp: "create_project x d av pv w = (Inr u, w')" by (simp add: init_def)
  note none = empty_dir_absent [OF empty]
  from ensuresD [OF create_project_dags _ cp]
  have 1: "lookup (fs w') (d @ [''dags'']) = Some Dir" by (simp add: holds_def)
  from ensuresD [OF create_project_plugins _ cp]
  have 2: "lookup (fs w') (d @ [''plugins'']) = Some Dir" by (simp add: holds_def)
  from ensuresD [OF create_project_settings _ cp] none
  have 3: "lookup (fs w') (d @ [''settings.yaml'']) = Some (File (settings_text av pv))"
    by (simp add: holds_def absent_def SETTINGS_FILENAME_def)
  from ensuresD [OF create_project_env _ cp] none
  have 4: "lookup (fs w') (d @ [''.env'']) = Some (File (env_text d))"
    by (simp add: holds_def absent_def)
  from ensuresD [OF create_project_gitignore _ cp]
  have 5: "lookup (fs w') (d @ [''.gitignore'']) = Some (File gitignore_text)"
    by (simp add: holds_def)
  from ensuresD [OF create_project_requirements _ cp] none
  have 6: "lookup (fs w') (d @ [''requirements.txt'']) = Some (File [])"
    by (simp add: holds_def absent_def)
  from 1 2 3 4 5 6 show ?thesis by blast
qed

text \<open>
  The run on \<open>fresh_world\<close>: the directory \<open>proj\<close> is new, the run returns, and the six
  artifacts are there.
\<close>

lemma fresh_run:
  "init demo_ext [''proj''] ''2.7.0'' ''3.10'' fresh_world =
     (Inr (), \<lparr>fs = [([], Dir), ([''pkg''], Dir), ([''pkg'', ''dags''], Dir),
       ([''pkg'', ''dags'', ''example_dag.py''], File ''# example''),
       ([''proj''], Dir), ([''proj'', ''dags''], Dir),
       ([''proj'', ''dags'', ''example_dag.py''], File ''# example''),
       ([''proj'', ''plugins''], Dir),
       ([''proj'', ''requirements.txt''], File []),
       ([''proj'', ''.gitignore''], File gitignore_text),
       ([''proj'', ''settings.yaml''], File (settings_text ''2.7.0'' ''3.10'')),
       ([''proj'', ''.env''], File (env_text [''proj'']))],
     environ = [], trace = [Echo (MsgInitialized [''proj''])]\<rparr>)"
  by (simp add: init_def create_project_def demo_ext_def fresh_world_def fs_defs prog_defs
        SETTINGS_FILENAME_def)

theorem init_creates_artifacts_witness:
  "children (fs fresh_world) [''proj''] = []
   \<and> fst (init demo_ext [''proj''] ''2.7.0'' ''3.10'' fresh_world) = Inr ()
   \<and> lookup (fs (snd (init demo_ext [''proj''] ''2.7.0'' ''3.10'' fresh_world)))
         [''proj'', ''dags''] = Some Dir
   \<and> lookup (fs (snd (init demo_ext [''proj''] ''2.7.0'' ''3.10'' fresh_world)))
         [''proj'', ''plugins''] = Some Dir
   \<and> lookup (fs (snd (init demo_ext [''proj''] ''2.7.0'' ''3.10'' fresh_world)))
         [''proj'', ''settings.yaml''] = Some (File (settings_text ''2.7.0'' ''3.10''))
   \<and> lookup (fs (snd (init demo_ext [''proj''] ''2.7.0'' ''3.10'' fresh_world)))
         [''proj'', ''.env''] = Some (File (env_text [''proj'']))
   \<and> lookup (fs (snd (init demo_ext [''proj''] ''2.7.0'' ''3.10'' fresh_world)))
         [''proj'', ''.gitignore''] = Some (File gitignore_text)
   \<and> lookup (fs (snd (init demo_ext [''proj''] ''2.7.0'' ''3.10'' fresh_world)))
         [''proj'', ''requirements.txt''] = Some (File [])"
proof -
  have e: "children (fs fresh_world) [''proj''] = []"
    by (simp add: fresh_world_def fs_defs)
  obtain w' where r: "init demo_ext [''proj''] ''2.7.0'' ''3.10'' fresh_world = (Inr (), w')"
    using fresh_run by blast
  from init_creates_artifacts [OF r e] r e show ?thesis by simp
qed



text \<open>
  Claim C9, as the code has it. Every run of \<open>init\<close> that returns (on a re-run: the user
  confirms at the prompt) leaves \<open>.gitignore\<close> holding exactly the fixed ignore list,
  whatever the file held before: no test for existence guards the write.
\<close>

theorem init_rewrites_gitignore:
  assumes "init x d av pv w = (Inr u, w')"
  shows "lookup (fs w') (d @ [''.gitignore'']) = Some (File gitignore_text)"
proof -
  from assms have cp: "create_project x d av pv w = (Inr u, w')" by (simp add: init_def)
  from ensuresD [OF create_project_gitignore _ cp] show ?thesis by (simp add: holds_def)
qed

text \<open>
  On \<open>project_world\<close> the \<open>.gitignore\<close> the user had written is replaced.
\<close>

lemma project_rerun:
  "fst (init demo_ext [''proj''] ''2.8.1'' ''3.11'' project_world) = Inr ()"
  by (simp add: init_def create_project_def demo_ext_def project_world_def fs_defs prog_defs
        SETTINGS_FILENAME_def)

theorem init_rewrites_gitignore_witness:
  "lookup (fs project_world) [''proj'', ''.gitignore''] = Some (File ''node_modules'')
   \<and> fst (init demo_ext [''proj''] ''2.8.1'' ''3.11'' project_world) = Inr ()
   \<and> lookup (fs (snd (init demo_ext [''proj''] ''2.8.1'' ''3.11'' project_world)))
         [''proj'', ''.gitignore''] = Some (File gitignore_text)"
proof -
  have g: "lookup (fs project_world) [''proj'', ''.gitignore''] = Some (File ''node_modules'')"
    by (simp add: project_world_def lookup_def)
  obtain w' where r: "init demo_ext [''proj''] ''2.8.1'' ''3.11'' project_world = (Inr (), w')"
    using project_rerun by (cases "init demo_ext [''proj''] ''2.8.1'' ''3.11'' project_world") auto
  from init_rewrites_gitignore [OF r] r g show ?thesis by simp
qed

text \<open>
  The claim as stated, for every run, fails: a re-run prompts because the directory is not
  empty, and when the user declines the run aborts before the write and \<open>.gitignore\<close>
  keeps what it held.
\<close>

theorem init_declined_keeps_gitignore:
  "lookup (fs project_world) [''proj'', ''.gitignore''] = Some (File ''node_modules'')
   \<and> fst (init declining_ext [''proj''] ''2.8.1'' ''3.11'' project_world) = Inl Abort
   \<and> lookup (fs (snd (init declining_ext [''proj''] ''2.8.1'' ''3.11'' project_world)))
         [''proj'', ''.gitignore''] = Some (File ''node_modules'')"
  by (simp add: init_def create_project_def declining_ext_def demo_ext_def project_world_def
        fs_defs prog_defs)

section \<open>The version resolver\<close>

text \<open>
  Claim C5, as the code has it. When the request succeeds, the body is JSON and
  \<^verbatim>\<open>data["info"]["version"]\<close> is there, the resolver returns that value as the index
  reports it. When the request raises \<^verbatim>\<open>httpx.RequestError\<close>, or \<open>info\<close> or \<open>version\<close> is
  missing from the response (\<^verbatim>\<open>KeyError\<close>), it returns the fallback 2.7.0 and does not
  raise. Both hold when \<open>verbose\<close> is off, and when it is on provided the message with the
  interpolated version or error text renders.
\<close>

lemma rich_print_run:
  "rich_print x m w =
     (if is_literal m \<or> rich_renders x m then (Inr (), w\<lparr>trace := trace w @ [Echo m]\<rparr>)
      else (Inl (Uncaught MarkupError), w))"
  by (simp add: rich_print_def emit_def throw_def)

lemma version_fallback_run:
  assumes "verbose \<longrightarrow> is_literal (MsgRetrieveError cause)
                       \<or> rich_renders x (MsgRetrieveError cause)"
  shows "fst (version_fallback x verbose cause w) = Inr (JStr ''2.7.0'')"
  using assms
  by (cases verbose)
     (simp_all add: version_fallback_def fallback_version_def whenP_def bind_def ret_def
        rich_print_run)

theorem resolver_behaviour:
  "(http_get x = Response (Some data) \<and> version_field data = Inr v
      \<and> (verbose \<longrightarrow> rich_renders x (MsgLatest v))
      \<longrightarrow> fst (get_latest_airflow_version x verbose w) = Inr v)
   \<and> ((http_get x = RequestError cause
         \<and> (verbose \<longrightarrow> rich_renders x (MsgRetrieveError (Some cause))))
        \<or> (http_get x = Response (Some data) \<and> version_field data = Inl KeyError)
      \<longrightarrow> fst (get_latest_airflow_version x verbose w) = Inr (JStr ''2.7.0''))"
proof (intro conjI impI)
  assume "http_get x = Response (Some data) \<and> version_field data = Inr v
      \<and> (verbose \<longrightarrow> rich_renders x (MsgLatest v))"
  then show "fst (get_latest_airflow_version x verbose w) = Inr v"
    by (cases verbose)
       (simp_all add: get_latest_airflow_version_def whenP_def bind_def ret_def rich_print_run)
next
  assume "(http_get x = RequestError cause
         \<and> (verbose \<longrightarrow> rich_renders x (MsgRetrieveError (Some cause))))
        \<or> (http_get x = Response (Some data) \<and> version_field data = Inl KeyError)"
  then show "fst (get_latest_airflow_version x verbose w) = Inr (JStr ''2.7.0'')"
  proof
    assume "http_get x = RequestError cause
         \<and> (verbose \<longrightarrow> rich_renders x (MsgRetrieveError (Some cause)))"
    then show ?thesis
      by (simp add: get_latest_airflow_version_def version_fallback_run)
  next
    assume "http_get x = Response (Some data) \<and> version_field data = Inl KeyError"
    then show ?thesis
      by (simp add: get_latest_airflow_version_def version_fallback_run)
  qed
qed

text \<open>
  A response that reports 2.8.1, a request that fails, and a response without \<open>info\<close>,
  all with \<open>verbose\<close> on.
\<close>

theorem resolver_behaviour_witness:
  "fst (get_latest_airflow_version
          (pypi_ext (Response (Some (JObj [(''info'', JObj [(''version'', JStr ''2.8.1'')])]))))
          True fresh_world) = Inr (JStr ''2.8.1'')
   \<and> fst (get_latest_airflow_version (pypi_ext (RequestError ''timed out'')) True fresh_world)
       = Inr (JStr ''2.7.0'')
   \<and> fst (get_latest_airflow_version
            (pypi_ext (Response (Some (JObj [(''message'', JStr ''Not Found'')]))))
            True fresh_world) = Inr (JStr ''2.7.0'')"
  using resolver_behaviour [where x = "pypi_ext (Response (Some (JObj [(''info'', JObj [(''version'', JStr ''2.8.1'')])])))"
          and data = "JObj [(''info'', JObj [(''version'', JStr ''2.8.1'')])]"
          and v = "JStr ''2.8.1''" and verbose = True and cause = "''timed out''"
          and w = fresh_world]
        resolver_behaviour [where x = "pypi_ext (RequestError ''timed out'')" and data = JNull
          and v = JNull and verbose = True and cause = "''timed out''" and w = fresh_world]
        resolver_behaviour [where x = "pypi_ext (Response (Some (JObj [(''message'', JStr ''Not Found'')])))"
          and data = "JObj [(''message'', JStr ''Not Found'')]" and v = JNull
          and verbose = True and cause = "''timed out''" and w = fresh_world]
  by (simp add: pypi_ext_def demo_defs version_field_def)

text \<open>
  The claim as stated fails. A body that is not JSON makes \<^verbatim>\<open>response.json()\<close> raise a
  \<^verbatim>\<open>JSONDecodeError\<close>, which the handler does not catch, so the resolver raises instead
  of returning the fallback. What the index reports is returned unchecked, also when it
  is the empty string. And with \<open>verbose\<close> on, a reported version that does not render
  (\<^verbatim>\<open>[/x]\<close>) makes the message of the success path raise \<^verbatim>\<open>MarkupError\<close>.
\<close>

theorem resolver_raises_on_invalid_json:
  "get_latest_airflow_version (pypi_ext (Response None)) True fresh_world
     = (Inl (Uncaught JSONDecodeError), fresh_world)
   \<and> fst (get_latest_airflow_version (pypi_ext (Response None)) True fresh_world)
       \<noteq> Inr (JStr ''2.7.0'')
   \<and> fst (get_latest_airflow_version
            (pypi_ext (Response (Some (JObj [(''info'', JObj [(''version'', JStr [])])]))))
            True fresh_world) = Inr (JStr [])
   \<and> get_latest_airflow_version
         (pypi_ext (Response (Some (JObj [(''info'', JObj [(''version'', JStr ''[/x]'')])]))))
         True fresh_world = (Inl (Uncaught MarkupError), fresh_world)"
  by (simp add: get_latest_airflow_version_def pypi_ext_def demo_defs throw_def
        version_field_def whenP_def bind_def ret_def rich_print_run)

section \<open>The package installer and \<open>build\<close>\<close>

lemma is_airflow_installed_run:
  assumes "path_exists (fs w) (venv_bin_python venv_path)"
      and "run x (VersionCmd (venv_bin_python venv_path)) = Exited status out"
  shows "is_airflow_installed x venv_path w =
           (Inr (status = 0),
            w\<lparr>trace := trace w @ [Spawn (VersionCmd (venv_bin_python venv_path))]\<rparr>)"
  using assms by (simp add: is_airflow_installed_def run_simps ret_def)

lemma is_airflow_installed_no_python:
  assumes "\<not> path_exists (fs w) (venv_bin_python venv_path)"
  shows "is_airflow_installed x venv_path w = (Inr False, w)"
  using assms by (simp add: is_airflow_installed_def run_simps ret_def)

lemma install_airflow_installed:
  assumes "path_exists (fs w) (venv_bin_python venv_path)"
      and "run x (VersionCmd (venv_bin_python venv_path)) = Exited 0 out"
  shows "install_airflow x version venv_path constraints_url extras requirements verbose w =
           rich_print x (MsgAlreadyInstalled version)
             (w\<lparr>trace := trace w @ [Spawn (VersionCmd (venv_bin_python venv_path))]\<rparr>)"
proof -
  have "is_airflow_installed x venv_path w =
      (Inr True, w\<lparr>trace := trace w @ [Spawn (VersionCmd (venv_bin_python venv_path))]\<rparr>)"
    using is_airflow_installed_run [OF assms] by simp
  then show ?thesis
    unfolding install_airflow_def by (simp add: bind_def)
qed

lemma install_airflow_no_python:
  assumes "\<not> path_exists (fs w) (venv_bin_python venv_path)"
  shows "install_airflow x version venv_path constraints_url extras requirements verbose w =
           bind (rich_print x (MsgVenvInvalid venv_path)) (\<lambda>_. throw SysExit) w"
  unfolding install_airflow_def
  using assms is_airflow_installed_no_python [OF assms, of x]
  by (simp add: bind_def test_def)

text \<open>
  Claim C10. Whenever the version command of the environment exits with status 0,
  \<open>install_airflow\<close> skips the installation: it spawns the version command and prints that
  the requested version is already installed; it returns when that message renders and
  raises \<^verbatim>\<open>MarkupError\<close> when it does not, and spawns no install command either way. This
  holds for every requested \<open>version\<close> and every output \<open>out\<close> of the version command: the
  two are never compared.
\<close>

theorem install_airflow_skips:
  assumes "path_exists (fs w) (venv_bin_python venv_path)"
      and "run x (VersionCmd (venv_bin_python venv_path)) = Exited 0 out"
  shows "install_airflow x version venv_path constraints_url extras requirements verbose w =
           (if rich_renders x (MsgAlreadyInstalled version)
            then (Inr (), w\<lparr>trace := trace w @ [Spawn (VersionCmd (venv_bin_python venv_path)),
                                                 Echo (MsgAlreadyInstalled version)]\<rparr>)
            else (Inl (Uncaught MarkupError),
                  w\<lparr>trace := trace w @ [Spawn (VersionCmd (venv_bin_python venv_path))]\<rparr>))
       \<and> installs (trace (snd (install_airflow x version venv_path constraints_url extras
                                  requirements verbose w))) = installs (trace w)"
proof -
  have "is_airflow_installed x venv_path w =
      (Inr True, w\<lparr>trace := trace w @ [Spawn (VersionCmd (venv_bin_python venv_path))]\<rparr>)"
    using is_airflow_installed_run [OF assms] by simp
  then have "install_airflow x version venv_path constraints_url extras requirements verbose w =
      rich_print x (MsgAlreadyInstalled version)
        (w\<lparr>trace := trace w @ [Spawn (VersionCmd (venv_bin_python venv_path))]\<rparr>)"
    unfolding install_airflow_def by (simp add: bind_def)
  then show ?thesis
    by (simp add: rich_print_run installs_def)
qed

text \<open>
  The environment of \<open>project_world\<close> reports 2.6.3; a request for 2.7.0 is skipped, and so
  is a request for the version \<^verbatim>\<open>[/x]\<close>, whose message does not render.
\<close>

theorem install_airflow_skips_witness:
  "run demo_ext (VersionCmd [''proj'', ''.venv'', ''bin'', ''python'']) = Exited 0 ''2.6.3''
   \<and> install_airflow demo_ext (YStr ''2.7.0'') [''proj'', ''.venv'']
         (ConstraintsUrl (YStr ''2.7.0'') (YStr ''3.10'')) [] [] False project_world
       = (Inr (), project_world\<lparr>trace :=
            [Spawn (VersionCmd [''proj'', ''.venv'', ''bin'', ''python'']),
             Echo (MsgAlreadyInstalled (YStr ''2.7.0''))]\<rparr>)
   \<and> install_airflow demo_ext (YStr ''[/x]'') [''proj'', ''.venv'']
         (ConstraintsUrl (YStr ''[/x]'') (YStr ''3.10'')) [] [] False project_world
       = (Inl (Uncaught MarkupError), project_world\<lparr>trace :=
            [Spawn (VersionCmd [''proj'', ''.venv'', ''bin'', ''python''])]\<rparr>)"
proof -
  have p: "path_exists (fs project_world) (venv_bin_python [''proj'', ''.venv''])"
    by (simp add: project_world_def path_exists_def lookup_def venv_bin_python_def)
  have r: "run demo_ext (VersionCmd (venv_bin_python [''proj'', ''.venv''])) = Exited 0 ''2.6.3''"
    by (simp add: demo_ext_def)
  from install_airflow_skips [OF p r, of "YStr ''2.7.0''"]
       install_airflow_skips [OF p r, of "YStr ''[/x]''"] r
  show ?thesis
    by (simp add: venv_bin_python_def project_world_def demo_defs)
qed

lemma get_conf_or_raise_lacking:
  assumes "\<not> has_key config key"
  shows "\<exists>e w'. get_conf_or_raise key config w = (Inl e, w')
           \<and> exit_code e = 1 \<and> fs w' = fs w \<and> environ w' = environ w
           \<and> effects (trace w') = effects (trace w)"
  using assms
  by (cases config)
     (auto simp: get_conf_or_raise_def run_simps throw_def effects_def)

lemma get_conf_or_raise_present:
  assumes "has_key config key"
  shows "\<exists>v. get_conf_or_raise key config w = (Inr v, w)"
  using assms
  by (cases config) (auto simp: get_conf_or_raise_def ret_def)

lemma load_yaml_run:
  assumes "lookup (fs w) p = Some (File c)"
  shows "load_yaml x p w = (case yaml_safe_load x c of
           None \<Rightarrow> (Inl (Uncaught YAMLError), w) | Some config \<Rightarrow> (Inr config, w))"
  using assms
  by (simp add: load_yaml_def read_text_def bind_def ret_def throw_def split: option.splits)

lemma build_not_found:
  assumes "\<not> path_exists (fs w) (project_path @ [SETTINGS_FILENAME])"
  shows "build x project_path settings_file venv_path recreate_venv w =
           (Inl (TyperExit 1), w\<lparr>trace := trace w @ [Echo (MsgSettingsNotFound settings_file)]\<rparr>)"
  using assms by (simp add: build_def run_simps throw_def)

lemma build_found:
  assumes "path_exists (fs w) (project_path @ [SETTINGS_FILENAME])"
  shows "build x project_path settings_file venv_path recreate_venv w =
     bind (load_yaml x settings_file) (\<lambda>config.
     bind (get_conf_or_raise ''airflow_version'' config) (\<lambda>airflow_version.
     bind (get_conf_or_raise ''python_version'' config) (\<lambda>python_version.
     bind (verify_or_create_venv x venv_path recreate_venv) (\<lambda>venv.
     bind (install_airflow x airflow_version venv
             (ConstraintsUrl airflow_version python_version) [] [] False) (\<lambda>_.
     emit (Echo MsgBuilt)))))) w"
  using assms by (simp add: build_def run_simps)

lemma verify_or_create_venv_returns:
  "returns (verify_or_create_venv x venv_path recreate) venv_path"
  unfolding verify_or_create_venv_def
  by (intro returns_bind returns_ret)

lemma keeps_no_install_emit: "\<not> is_install ev \<Longrightarrow> keeps (no_install t) (emit ev)"
  by (rule keeps_emit) (simp add: no_install_def installs_def)

lemma keeps_no_install_rich_print: "keeps (no_install t) (rich_print x m)"
  unfolding rich_print_def by (simp add: keeps_throw keeps_no_install_emit)

lemma keeps_no_install_rmtree: "keeps (no_install t) (rmtree p)"
  by (rule keepsI)
     (auto simp: rmtree_def no_install_def installs_def throw_def
           split: option.splits node.splits)

lemma keeps_no_install_venv_create: "keeps (no_install t) (venv_create x p)"
  by (rule keepsI)
     (auto simp: venv_create_def no_install_def installs_def throw_def split: sum.splits)

lemma keeps_no_install_verify:
  "keeps (no_install t) (verify_or_create_venv x venv_path recreate)"
  unfolding verify_or_create_venv_def
  by (intro keeps_bind keeps_whenP keeps_test_plain keeps_ret keeps_throw
        keeps_no_install_rich_print keeps_no_install_rmtree keeps_no_install_venv_create)

lemma keeps_no_install_get_conf: "keeps (no_install t) (get_conf_or_raise key config)"
  by (rule keepsI)
     (auto simp: get_conf_or_raise_def no_install_def installs_def run_simps throw_def ret_def
           split: sum.splits if_splits)

lemma keeps_no_install_load_yaml: "keeps (no_install t) (load_yaml x p)"
  unfolding load_yaml_def
  by (rule keeps_bind [OF keeps_read]) (simp add: keeps_ret keeps_throw split: option.splits)

lemma keeps_no_install_install_airflow:
  assumes "run x (VersionCmd (venv_bin_python venv_path)) = Exited 0 out"
  shows "keeps (no_install t)
           (install_airflow x version venv_path constraints_url extras requirements verbose)"
proof (rule keepsI)
  fix w r w'
  assume I: "no_install t w"
    and run: "install_airflow x version venv_path constraints_url extras requirements verbose w
                = (r, w')"
  show "no_install t w'"
  proof (cases "path_exists (fs w) (venv_bin_python venv_path)")
    case True
    have "no_install t (w\<lparr>trace := trace w @ [Spawn (VersionCmd (venv_bin_python venv_path))]\<rparr>)"
      using I by (simp add: no_install_def installs_def)
    from keepsD [OF keeps_no_install_rich_print this]
      install_airflow_installed [OF True assms] run
    show ?thesis by metis
  next
    case False
    have "keeps (no_install t)
        (bind (rich_print x (MsgVenvInvalid venv_path)) (\<lambda>_. throw SysExit))"
      by (intro keeps_bind keeps_no_install_rich_print keeps_throw)
    from keepsD [OF this I] install_airflow_no_python [OF False] run
    show ?thesis by metis
  qed
qed

text \<open>
  Claim C2. When the version command of the environment's interpreter exits with
  status 0 (Airflow is installed there), a run of \<open>build\<close> spawns no install command,
  however it ends: \<open>install_airflow\<close> is over before it builds one.
\<close>

theorem build_no_reinstall:
  assumes "run x (VersionCmd (venv_bin_python venv_path)) = Exited 0 out"
  shows "installs (trace (snd (build x project_path settings_file venv_path recreate_venv w)))
           = installs (trace w)"
proof -
  let ?I = "no_install (installs (trace w))"
  have tail: "keeps ?I (bind (load_yaml x settings_file) (\<lambda>config.
     bind (get_conf_or_raise ''airflow_version'' config) (\<lambda>airflow_version.
     bind (get_conf_or_raise ''python_version'' config) (\<lambda>python_version.
     bind (verify_or_create_venv x venv_path recreate_venv) (\<lambda>venv.
     bind (install_airflow x airflow_version venv
             (ConstraintsUrl airflow_version python_version) [] [] False) (\<lambda>_.
     emit (Echo MsgBuilt)))))))"
    apply (rule keeps_bind [OF keeps_no_install_load_yaml])
    apply (rule keeps_bind [OF keeps_no_install_get_conf])
    apply (rule keeps_bind [OF keeps_no_install_get_conf])
    apply (rule keeps_bind_returns [OF keeps_no_install_verify verify_or_create_venv_returns])
    apply (rule keeps_bind [OF keeps_no_install_install_airflow [OF assms]])
    apply (rule keeps_no_install_emit)
    apply simp
    done
  have "keeps ?I (build x project_path settings_file venv_path recreate_venv)"
  proof (rule keepsI)
    fix v r w'
    assume I: "?I v"
      and run: "build x project_path settings_file venv_path recreate_venv v = (r, w')"
    show "?I w'"
    proof (cases "path_exists (fs v) (project_path @ [SETTINGS_FILENAME])")
      case True
      from run build_found [OF True] keepsD [OF tail I] show ?thesis by metis
    next
      case False
      from run build_not_found [OF False] I show ?thesis
        by (auto simp: no_install_def installs_def)
    qed
  qed
  from keepsD [OF this, of w "fst (build x project_path settings_file venv_path recreate_venv w)"
                 "snd (build x project_path settings_file venv_path recreate_venv w)"]
  show ?thesis by (simp add: no_install_def)
qed

text \<open>
  A second \<open>build\<close> of the project in \<open>project_world\<close> returns and has installed nothing.
\<close>

lemma project_build_run:
  "fst (build demo_ext [''proj''] [''proj'', ''settings.yaml''] [''proj'', ''.venv''] False
          project_world) = Inr ()"
  by (simp add: build_defs venv_defs demo_defs project_world_def fs_defs prog_defs)

theorem build_no_reinstall_witness:
  "run demo_ext (VersionCmd (venv_bin_python [''proj'', ''.venv''])) = Exited 0 ''2.6.3''
   \<and> fst (build demo_ext [''proj''] [''proj'', ''settings.yaml''] [''proj'', ''.venv''] False
            project_world) = Inr ()
   \<and> installs (trace (snd (build demo_ext [''proj''] [''proj'', ''settings.yaml'']
            [''proj'', ''.venv''] False project_world))) = []"
proof -
  have r: "run demo_ext (VersionCmd (venv_bin_python [''proj'', ''.venv''])) = Exited 0 ''2.6.3''"
    by (simp add: demo_ext_def)
  from build_no_reinstall [OF r, of "[''proj'']" "[''proj'', ''settings.yaml'']" False project_world]
    r project_build_run
  show ?thesis by (simp add: project_world_def installs_def)
qed

text \<open>
  The second run in full: with the settings in place, both keys present, the environment
  valid and not to be recreated, \<open>build\<close> returns, and all it did was to run the version
  command and to print two messages.
\<close>

lemma verify_valid_venv:
  assumes "path_exists (fs w) venv_path" and "path_exists (fs w) (venv_bin_python venv_path)"
  shows "verify_or_create_venv x venv_path False w = (Inr venv_path, w)"
  using assms by (simp add: verify_or_create_venv_def run_simps ret_def)

lemma get_conf_or_raise_value:
  assumes "map_of kvs key = Some v"
  shows "get_conf_or_raise key (YMap kvs) w = (Inr v, w)"
  using assms by (simp add: get_conf_or_raise_def ret_def)

lemma build_second_run:
  assumes guard: "path_exists (fs w) (project_path @ [SETTINGS_FILENAME])"
      and sfile: "lookup (fs w) settings_file = Some (File c)"
      and parsed: "yaml_safe_load x c = Some (YMap kvs)"
      and av: "map_of kvs ''airflow_version'' = Some airflow_version"
      and pv: "map_of kvs ''python_version'' = Some python_version"
      and venv: "path_exists (fs w) venv_path"
      and python: "path_exists (fs w) (venv_bin_python venv_path)"
      and installed: "run x (VersionCmd (venv_bin_python venv_path)) = Exited 0 out"
      and renders: "rich_renders x (MsgAlreadyInstalled airflow_version)"
  shows "build x project_path settings_file venv_path False w =
           (Inr (), w\<lparr>trace := trace w @ [Spawn (VersionCmd (venv_bin_python venv_path)),
              Echo (MsgAlreadyInstalled airflow_version), Echo MsgBuilt]\<rparr>)"
proof -
  have ld: "load_yaml x settings_file w = (Inr (YMap kvs), w)"
    using parsed by (simp add: load_yaml_run [OF sfile])
  show ?thesis
    by (simp add: build_found [OF guard] bind_def ld get_conf_or_raise_value [OF av]
          get_conf_or_raise_value [OF pv] verify_valid_venv [OF venv python]
          install_airflow_installed [OF python installed] rich_print_run renders emit_def)
qed

text \<open>
  Claim C6. When the settings file exists and does not contain the key
  \<open>airflow_version\<close>, \<open>build\<close> ends with a non-zero exit code, and it does so before the
  environment is looked at: the outcome is the same for every \<open>venv_path\<close> and
  \<open>recreate_venv\<close>, the file system is unchanged, and no environment was created or removed
  and no process spawned.
\<close>

theorem build_missing_airflow_version:
  assumes sfile: "lookup (fs w) settings_file = Some (File c)"
      and lacks: "lacks_key (yaml_safe_load x c) ''airflow_version''"
  shows "\<exists>e w'. (\<forall>venv_path recreate_venv.
             build x project_path settings_file venv_path recreate_venv w = (Inl e, w'))
           \<and> exit_code e \<noteq> 0 \<and> fs w' = fs w \<and> effects (trace w') = effects (trace w)"
proof (cases "path_exists (fs w) (project_path @ [SETTINGS_FILENAME])")
  case False
  from build_not_found [OF this] show ?thesis
    by (intro exI [of _ "TyperExit 1"]
          exI [of _ "w\<lparr>trace := trace w @ [Echo (MsgSettingsNotFound settings_file)]\<rparr>"])
       (simp add: effects_def)
next
  case True
  note b = build_found [OF True]
  show ?thesis
  proof (cases "yaml_safe_load x c")
    case None
    then have "load_yaml x settings_file w = (Inl (Uncaught YAMLError), w)"
      by (simp add: load_yaml_run [OF sfile])
    then have "build x project_path settings_file venv_path recreate_venv w
        = (Inl (Uncaught YAMLError), w)" for venv_path recreate_venv
      by (simp add: b bind_def)
    then show ?thesis
      by (intro exI [of _ "Uncaught YAMLError"] exI [of _ w]) simp
  next
    case (Some config)
    then have ld: "load_yaml x settings_file w = (Inr config, w)"
      by (simp add: load_yaml_run [OF sfile])
    from lacks Some have "\<not> has_key config ''airflow_version''" by simp
    from get_conf_or_raise_lacking [OF this, of w]
    obtain e w' where g: "get_conf_or_raise ''airflow_version'' config w = (Inl e, w')"
      and e: "exit_code e = 1" and f: "fs w' = fs w"
      and t: "effects (trace w') = effects (trace w)" by blast
    have "build x project_path settings_file venv_path recreate_venv w = (Inl e, w')"
      for venv_path recreate_venv
      by (simp add: b bind_def ld g)
    with e f t show ?thesis
      by (intro exI [of _ e] exI [of _ w']) simp
  qed
qed

text \<open>
  The settings file \<open>partial.yaml\<close> of \<open>project_world\<close> has \<open>python_version\<close> only.
\<close>

theorem build_missing_airflow_version_witness:
  "\<exists>e w'. (\<forall>venv_path recreate_venv.
       build demo_ext [''proj''] [''proj'', ''partial.yaml''] venv_path recreate_venv project_world
         = (Inl e, w'))
     \<and> exit_code e \<noteq> 0 \<and> fs w' = fs project_world
     \<and> effects (trace w') = effects (trace project_world)"
  by (rule build_missing_airflow_version [where c = "''python_version: 3.10''"])
     (simp_all add: project_world_def lookup_def demo_defs text_defs)

text \<open>
  Claim C4, as the code has it. When the settings document read by \<open>build\<close> lacks
  \<open>airflow_version\<close> or \<open>python_version\<close>, \<open>build\<close> ends with exit code 1 and has changed
  nothing. (The claim does not extend to \<open>start\<close>, see below.)
\<close>

theorem build_requires_versions:
  assumes sfile: "lookup (fs w) settings_file = Some (File c)"
      and parsed: "yaml_safe_load x c = Some config"
      and lacks: "\<not> has_key config ''airflow_version'' \<or> \<not> has_key config ''python_version''"
  shows "\<exists>e w'. build x project_path settings_file venv_path recreate_venv w = (Inl e, w')
           \<and> exit_code e = 1 \<and> fs w' = fs w \<and> effects (trace w') = effects (trace w)"
proof (cases "path_exists (fs w) (project_path @ [SETTINGS_FILENAME])")
  case False
  from build_not_found [OF this] show ?thesis by (simp add: effects_def)
next
  case True
  note b = build_found [OF True]
  from parsed have ld: "load_yaml x settings_file w = (Inr config, w)"
    by (simp add: load_yaml_run [OF sfile])
  show ?thesis
  proof (cases "has_key config ''airflow_version''")
    case False
    from get_conf_or_raise_lacking [OF this, of w]
    obtain e w' where g: "get_conf_or_raise ''airflow_version'' config w = (Inl e, w')"
      and e: "exit_code e = 1" and f: "fs w' = fs w"
      and t: "effects (trace w') = effects (trace w)" by blast
    have "build x project_path settings_file venv_path recreate_venv w = (Inl e, w')"
      by (simp add: b bind_def ld g)
    with e f t show ?thesis by simp
  next
    case True
    from get_conf_or_raise_present [OF this, of w]
    obtain v where a: "get_conf_or_raise ''airflow_version'' config w = (Inr v, w)" by blast
    from True lacks have "\<not> has_key config ''python_version''" by simp
    from get_conf_or_raise_lacking [OF this, of w]
    obtain e w' where g: "get_conf_or_raise ''python_version'' config w = (Inl e, w')"
      and e: "exit_code e = 1" and f: "fs w' = fs w"
      and t: "effects (trace w') = effects (trace w)" by blast
    have "build x project_path settings_file venv_path recreate_venv w = (Inl e, w')"
      by (simp add: b bind_def ld a g)
    with e f t show ?thesis by simp
  qed
qed

text \<open>
  The settings file \<open>airflow_only.yaml\<close> of \<open>project_world\<close> has \<open>airflow_version\<close> only.
\<close>

theorem build_requires_versions_witness:
  "\<exists>e w'. build demo_ext [''proj''] [''proj'', ''airflow_only.yaml''] [''proj'', ''.venv''] False
       project_world = (Inl e, w')
     \<and> exit_code e = 1 \<and> fs w' = fs project_world
     \<and> effects (trace w') = effects (trace project_world)"
  by (rule build_requires_versions [where c = "''airflow_version: 2.7.0''"
            and config = "YMap [(''airflow_version'', YStr ''2.7.0'')]"])
     (simp_all add: project_world_def lookup_def demo_defs text_defs)

text \<open>
  The claim as stated fails for \<open>start\<close>, which reads the two keys with
  \<^verbatim>\<open>config.get\<close> and never requires them: with a \<open>config.yaml\<close> that only names the
  environment, \<open>start\<close> launches the server and returns.
\<close>

theorem start_ignores_missing_versions:
  "yaml_safe_load demo_ext ''venv_path: /opt/venv'' = Some (YMap [(''venv_path'', YStr ''/opt/venv'')])
   \<and> \<not> has_key (YMap [(''venv_path'', YStr ''/opt/venv'')]) ''airflow_version''
   \<and> \<not> has_key (YMap [(''venv_path'', YStr ''/opt/venv'')]) ''python_version''
   \<and> fst (start demo_ext [''proj''] project_world) = Inr ()
   \<and> trace (snd (start demo_ext [''proj''] project_world))
       = [Spawn (StandaloneCmd (Source (VenvGiven ''/opt/venv'')))]"
  by (simp add: start_defs build_defs demo_defs text_defs project_world_def fs_defs prog_defs
        Let_def)

text \<open>
  Claim C8 does not hold of the code. The guard of \<open>build\<close> tests
  \<^verbatim>\<open>project_path / SETTINGS_FILENAME\<close>, not the file named by \<^verbatim>\<open>--settings-file\<close>, which
  is the one the message names and the one that is opened. With a settings file that does
  not exist and a project that has its own \<open>settings.yaml\<close>, the guard passes and
  \<^verbatim>\<open>open\<close> raises \<^verbatim>\<open>FileNotFoundError\<close>; nothing reports the settings file as not found.
  Conversely, a settings file that exists is reported as not found when the project
  directory has no \<open>settings.yaml\<close>.
\<close>

theorem build_checks_wrong_path:
  "\<not> path_exists (fs project_world) [''elsewhere'', ''settings.yaml'']
   \<and> build demo_ext [''proj''] [''elsewhere'', ''settings.yaml''] [''proj'', ''.venv''] False
       project_world = (Inl (Uncaught FileNotFoundError), project_world)
   \<and> path_exists (fs project_world) [''proj'', ''partial.yaml'']
   \<and> build demo_ext [''elsewhere''] [''proj'', ''partial.yaml''] [''proj'', ''.venv''] False
       project_world
     = (Inl (TyperExit 1),
        project_world\<lparr>trace := [Echo (MsgSettingsNotFound [''proj'', ''partial.yaml''])]\<rparr>)"
  by (simp add: build_defs demo_defs project_world_def fs_defs prog_defs)

section \<open>The command \<open>start\<close>\<close>

text \<open>
  Claim C7. When there is no \<open>config.yaml\<close> at the project path, \<open>start\<close> prints that
  the config file was not found and exits with code 1; it spawns no child process.
\<close>

theorem start_without_config:
  assumes "\<not> path_exists (fs w) (project_path @ [''config.yaml''])"
  shows "start x project_path w =
           (Inl (TyperExit 1),
            w\<lparr>trace := trace w @ [Echo (MsgConfigNotFound (project_path @ [''config.yaml'']))]\<rparr>)
       \<and> exit_code (TyperExit 1) = 1
       \<and> effects (trace (snd (start x project_path w))) = effects (trace w)"
  using assms by (simp add: start_def Let_def run_simps throw_def effects_def)

text \<open>
  In \<open>fresh_world\<close> there is no project at all.
\<close>

theorem start_without_config_witness:
  "\<not> path_exists (fs fresh_world) [''proj'', ''config.yaml'']
   \<and> fst (start demo_ext [''proj''] fresh_world) = Inl (TyperExit 1)
   \<and> trace (snd (start demo_ext [''proj''] fresh_world))
       = [Echo (MsgConfigNotFound [''proj'', ''config.yaml''])]"
proof -
  have h: "\<not> path_exists (fs fresh_world) ([''proj''] @ [''config.yaml''])"
    by (simp add: fresh_world_def path_exists_def lookup_def)
  from start_without_config [OF h, of demo_ext] h show ?thesis
    by (simp add: fresh_world_def)
qed

end
